theory Spec2Isabelle
  imports Complex_Main "HOL-Library.Sublist"
begin

section \<open>Python values and exceptions\<close>

text \<open>
  The values the pipelines handle come out of \<^verbatim>\<open>json.loads\<close> or \<^verbatim>\<open>response.json()\<close>:
  \<^verbatim>\<open>None\<close>, booleans, integers, floats, strings, lists and dictionaries. A dictionary is
  an association list read with \<open>map_of\<close>. A Python float is the rational it stands
  for: the exceptions of the conversions are modelled, the rounding of the results,
  the infinities and NaN are not.
\<close>

datatype json =
    JNull
  | JBool bool
  | JInt int
  | JFloat rat
  | JStr string
  | JArr "json list"
  | JObj "(string \<times> json) list"

text \<open>
  The exception classes the source raises, catches or lets through. All of them are
  subclasses of Python's \<^verbatim>\<open>Exception\<close>. \<open>ValueError\<close> carries its message, since
  \<^verbatim>\<open>get_api_key_from_secret\<close> raises it with two different messages.
\<close>

datatype exn =
    TypeError
  | AttributeError
  | KeyError string
  | ValueError string
  | JSONDecodeError
  | UnicodeDecodeError
  | OverflowError
  | ClientError string
  | RequestException string
  | Timeout
  | OtherException string

definition bind_exn :: "exn + 'a \<Rightarrow> ('a \<Rightarrow> exn + 'b) \<Rightarrow> exn + 'b" where
  "bind_exn m f = (case m of Inl e \<Rightarrow> Inl e | Inr x \<Rightarrow> f x)"

text \<open>Python's truth value of an object, as \<^verbatim>\<open>all(...)\<close> and \<^verbatim>\<open>not x\<close> test it.\<close>

fun truthy :: "json \<Rightarrow> bool" where
  "truthy JNull = False"
| "truthy (JBool b) = b"
| "truthy (JInt i) = (i \<noteq> 0)"
| "truthy (JFloat r) = (r \<noteq> 0)"
| "truthy (JStr s) = (s \<noteq> [])"
| "truthy (JArr xs) = (xs \<noteq> [])"
| "truthy (JObj kvs) = (kvs \<noteq> [])"

text \<open>\<^verbatim>\<open>d.get(k, default)\<close> on a dictionary.\<close>

definition dict_get :: "(string \<times> json) list \<Rightarrow> string \<Rightarrow> json \<Rightarrow> json" where
  "dict_get kvs k d = (case map_of kvs k of None \<Rightarrow> d | Some v \<Rightarrow> v)"

text \<open>
  \<^verbatim>\<open>record.get(k, default)\<close> on any value: only a dictionary has the method, every
  other JSON value raises AttributeError.
\<close>

fun py_get :: "json \<Rightarrow> string \<Rightarrow> json \<Rightarrow> exn + json" where
  "py_get (JObj kvs) k d = Inr (dict_get kvs k d)"
| "py_get _ k d = Inl AttributeError"

text \<open>
  \<^verbatim>\<open>for record in raw_data\<close>: a list yields its elements, a dictionary its keys, a
  string its characters; the other values are not iterable.
\<close>

fun py_iter :: "json \<Rightarrow> exn + json list" where
  "py_iter (JArr xs) = Inr xs"
| "py_iter (JObj kvs) = Inr (map (\<lambda>kv. JStr (fst kv)) kvs)"
| "py_iter (JStr s) = Inr (map (\<lambda>c. JStr [c]) s)"
| "py_iter _ = Inl TypeError"

text \<open>
  The builtins \<^verbatim>\<open>float(x)\<close> and \<^verbatim>\<open>int(x)\<close>. How Python reads a number out of a
  string is not part of the repository: it is a parameter, \<open>float_of_str\<close> and
  \<open>int_of_str\<close>, that returns the number or the exception raised.
\<close>

record builtins =
  float_of_str :: "string \<Rightarrow> exn + rat"
  int_of_str :: "string \<Rightarrow> exn + int"

text \<open>
  An integer converts to a float when it rounds to a finite double, that is below the
  midpoint of the largest double \<open>2^1024 - 2^971\<close> and \<open>2^1024\<close>; beyond, \<^verbatim>\<open>float\<close> raises
  OverflowError.
\<close>

definition double_overflow_bound :: int where
  "double_overflow_bound = 2 ^ 1024 - 2 ^ 970"

fun py_float :: "builtins \<Rightarrow> json \<Rightarrow> exn + rat" where
  "py_float B (JInt i) =
     (if \<bar>i\<bar> < double_overflow_bound then Inr (of_int i) else Inl OverflowError)"
| "py_float B (JFloat r) = Inr r"
| "py_float B (JBool b) = Inr (if b then 1 else 0)"
| "py_float B (JStr s) = float_of_str B s"
| "py_float B _ = Inl TypeError"

definition trunc :: "rat \<Rightarrow> int" where
  "trunc r = (if 0 \<le> r then \<lfloor>r\<rfloor> else \<lceil>r\<rceil>)"

fun py_int :: "builtins \<Rightarrow> json \<Rightarrow> exn + int" where
  "py_int B (JInt i) = Inr i"
| "py_int B (JFloat r) = Inr (trunc r)"
| "py_int B (JBool b) = Inr (if b then 1 else 0)"
| "py_int B (JStr s) = int_of_str B s"
| "py_int B _ = Inl TypeError"

text \<open>
  \<^verbatim>\<open>len(x)\<close>: the number of elements of a list, of keys of a dictionary, of characters of
  a string; the other values have no length.
\<close>

fun py_len :: "json \<Rightarrow> exn + nat" where
  "py_len (JArr xs) = Inr (length xs)"
| "py_len (JObj kvs) = Inr (length (remdups (map fst kvs)))"
| "py_len (JStr s) = Inr (length s)"
| "py_len _ = Inl TypeError"

section \<open>The Normalizer: \<^verbatim>\<open>transform_financial_data\<close>\<close>

text \<open>
  The dictionary literal of the \<^verbatim>\<open>company_financials\<close> branch: five \<^verbatim>\<open>record.get\<close>
  calls with the default \<^verbatim>\<open>None\<close>, in the order of the source.
\<close>

definition company_record :: "json \<Rightarrow> exn + (string \<times> json) list" where
  "company_record record =
     bind_exn (py_get record ''symbol'' JNull) (\<lambda>symbol.
     bind_exn (py_get record ''date'' JNull) (\<lambda>date.
     bind_exn (py_get record ''revenue'' JNull) (\<lambda>revenue.
     bind_exn (py_get record ''netIncome'' JNull) (\<lambda>net_income.
     bind_exn (py_get record ''currency'' JNull) (\<lambda>currency.
       Inr [(''symbol'', symbol), (''date'', date), (''revenue'', revenue),
            (''net_income'', net_income), (''currency'', currency)])))))"

text \<open>
  The loop of the branch, with \<open>processed_data\<close> as the accumulator:
  \<^verbatim>\<open>if all(transformed_record.values()): processed_data.append(transformed_record)\<close>.
\<close>

fun company_loop :: "json list \<Rightarrow> json list \<Rightarrow> exn + json list" where
  "company_loop [] processed_data = Inr processed_data"
| "company_loop (record # rest) processed_data =
     (case company_record record of
        Inl e \<Rightarrow> Inl e
      | Inr transformed_record \<Rightarrow>
          if list_all truthy (map snd transformed_record)
          then company_loop rest (processed_data @ [JObj transformed_record])
          else company_loop rest processed_data)"

text \<open>
  The \<^verbatim>\<open>daily_change_pct\<close> entry of the \<^verbatim>\<open>market_data\<close> branch:
  \<^verbatim>\<open>((float(record.get('close', 0)) - float(record.get('open', 0)))
      / float(record.get('open', 1))) * 100 if float(record.get('open', 1)) != 0 else 0\<close>.
  The condition is evaluated first; the numerator reads \<^verbatim>\<open>open\<close> with the default
  \<open>0\<close>, the condition and the divisor read it with the default \<open>1\<close>.
\<close>

definition daily_change_pct :: "builtins \<Rightarrow> json \<Rightarrow> exn + json" where
  "daily_change_pct B record =
     bind_exn (py_get record ''open'' (JInt 1)) (\<lambda>gv. bind_exn (py_float B gv) (\<lambda>guard.
       if guard \<noteq> 0 then
         bind_exn (py_get record ''close'' (JInt 0)) (\<lambda>cv. bind_exn (py_float B cv) (\<lambda>close.
         bind_exn (py_get record ''open'' (JInt 0)) (\<lambda>ov. bind_exn (py_float B ov) (\<lambda>opn.
         bind_exn (py_get record ''open'' (JInt 1)) (\<lambda>dv. bind_exn (py_float B dv) (\<lambda>divisor.
           Inr (JFloat (((close - opn) / divisor) * 100))))))))
       else Inr (JInt 0)))"

definition market_record :: "builtins \<Rightarrow> json \<Rightarrow> exn + (string \<times> json) list" where
  "market_record B record =
     bind_exn (py_get record ''index'' JNull) (\<lambda>index.
     bind_exn (py_get record ''date'' JNull) (\<lambda>date.
     bind_exn (py_get record ''open'' (JInt 0)) (\<lambda>ov. bind_exn (py_float B ov) (\<lambda>opn.
     bind_exn (py_get record ''close'' (JInt 0)) (\<lambda>cv. bind_exn (py_float B cv) (\<lambda>close.
     bind_exn (py_get record ''volume'' (JInt 0)) (\<lambda>vv. bind_exn (py_int B vv) (\<lambda>volume.
     bind_exn (daily_change_pct B record) (\<lambda>pct.
       Inr [(''index'', index), (''date'', date), (''open'', JFloat opn),
            (''close'', JFloat close), (''volume'', JInt volume),
            (''daily_change_pct'', pct)])))))))))"

fun market_loop :: "builtins \<Rightarrow> json list \<Rightarrow> json list \<Rightarrow> exn + json list" where
  "market_loop B [] processed_data = Inr processed_data"
| "market_loop B (record # rest) processed_data =
     (case market_record B record of
        Inl e \<Rightarrow> Inl e
      | Inr transformed_record \<Rightarrow>
          market_loop B rest (processed_data @ [JObj transformed_record]))"

text \<open>
  The function. After either loop the message logged takes \<^verbatim>\<open>len(raw_data)\<close>; a value
  that could be iterated has a length.
\<close>

definition transform_financial_data :: "builtins \<Rightarrow> json \<Rightarrow> string \<Rightarrow> exn + json" where
  "transform_financial_data B raw_data data_type =
     (if data_type = ''company_financials'' then
        bind_exn (py_iter raw_data) (\<lambda>records.
        bind_exn (company_loop records []) (\<lambda>processed_data.
        bind_exn (py_len raw_data) (\<lambda>n. Inr (JArr processed_data))))
      else if data_type = ''market_data'' then
        bind_exn (py_iter raw_data) (\<lambda>records.
        bind_exn (market_loop B records []) (\<lambda>processed_data.
        bind_exn (py_len raw_data) (\<lambda>n. Inr (JArr processed_data))))
      else Inr raw_data)"

section \<open>Key derivation\<close>

text \<open>
  \<^verbatim>\<open>s.split(c)\<close> for a one-character separator: the segments between the separators,
  at least one and possibly empty.
\<close>

fun split_on :: "char \<Rightarrow> string \<Rightarrow> string list" where
  "split_on c [] = [[]]"
| "split_on c (x # xs) =
     (if x = c then [] # split_on c xs
      else (case split_on c xs of [] \<Rightarrow> [[x]] | p # ps \<Rightarrow> (x # p) # ps))"

text \<open>
  \<^verbatim>\<open>os.path.basename(p)\<close> of \<^verbatim>\<open>posixpath\<close>: what follows the last slash, the whole
  string when there is none.
\<close>

definition basename :: "string \<Rightarrow> string" where
  "basename p = rev (takeWhile (\<lambda>c. c \<noteq> CHR ''/'') (rev p))"

text \<open>
  The key computed at the head of \<^verbatim>\<open>upload_processed_data_to_s3\<close>, with the module
  constant \<^verbatim>\<open>PROCESSED_S3_PREFIX\<close> as a parameter. With at least four segments the
  negative indices \<^verbatim>\<open>parts[-3]\<close>, \<^verbatim>\<open>parts[-2]\<close>, \<^verbatim>\<open>parts[-1]\<close> are in range.
\<close>

definition derive_processed_key :: "string \<Rightarrow> string \<Rightarrow> string" where
  "derive_processed_key processed_prefix original_s3_key =
     (let parts = split_on CHR ''/'' original_s3_key in
      if 4 \<le> length parts then
        (let data_type = parts ! (length parts - 3);
             date_str = parts ! (length parts - 2);
             filename = parts ! (length parts - 1)
         in processed_prefix @ ''/'' @ data_type @ ''/'' @ date_str @ ''/'' @ filename)
      else processed_prefix @ ''/unclassified/'' @ basename original_s3_key)"

text \<open>The raw key and the file name built in \<^verbatim>\<open>FinancialDataIngestor._upload_to_s3\<close>.\<close>

definition raw_file_name :: "string \<Rightarrow> string \<Rightarrow> string \<Rightarrow> string" where
  "raw_file_name data_type date_str hms = data_type @ ''_'' @ date_str @ ''_'' @ hms @ ''.json''"

definition raw_s3_key :: "string \<Rightarrow> string \<Rightarrow> string \<Rightarrow> string \<Rightarrow> string" where
  "raw_s3_key s3_prefix data_type date_str file_name =
     s3_prefix @ ''/'' @ data_type @ ''/'' @ date_str @ ''/'' @ file_name"

section \<open>The collaborators\<close>

text \<open>
  Object storage, the HTTP API, the secret store, the clock and the JSON codec are
  outside the repository. They are the fields of an environment; each call that reaches
  the outside takes the state of the world \<open>'w\<close> and returns the new one with its result
  or the exception it raised. \<open>requests_get_json\<close> stands for \<^verbatim>\<open>requests.get\<close>,
  \<^verbatim>\<open>raise_for_status\<close> and \<^verbatim>\<open>response.json()\<close> together, \<open>s3_get_object\<close> for
  \<^verbatim>\<open>get_object\<close> and the read of the body, \<open>json_dumps\<close> for \<^verbatim>\<open>json.dumps\<close> with its
  \<^verbatim>\<open>indent\<close> argument. Log output is not modelled.
\<close>

record secret_value_response =
  SecretString :: "string option"
  SecretBinary :: "string option"

record ('w, 't) env =
  s3_get_object :: "json \<Rightarrow> json \<Rightarrow> 'w \<Rightarrow> (exn + string) \<times> 'w"
  s3_put_object :: "string \<Rightarrow> string \<Rightarrow> string \<Rightarrow> 'w \<Rightarrow> (exn + unit) \<times> 'w"
  requests_get_json :: "string \<Rightarrow> string \<Rightarrow> (string \<times> string) list \<Rightarrow> 'w \<Rightarrow> (exn + json) \<times> 'w"
  get_secret_value :: "string \<Rightarrow> 'w \<Rightarrow> (exn + secret_value_response) \<times> 'w"
  datetime_now :: "'w \<Rightarrow> 't \<times> 'w"
  strftime :: "'t \<Rightarrow> string \<Rightarrow> string"
  minus_one_day :: "'t \<Rightarrow> 't"
  decode_utf8 :: "string \<Rightarrow> exn + string"
  json_loads :: "string \<Rightarrow> exn + json"
  json_dumps :: "nat option \<Rightarrow> json \<Rightarrow> string"
  py_builtins :: builtins
  PROCESSED_S3_BUCKET :: string
  PROCESSED_S3_PREFIX :: string

section \<open>The Puller: \<^verbatim>\<open>FinancialDataIngestor\<close>\<close>

record ingestor =
  api_base_url :: string
  api_key :: string
  s3_bucket_name :: string
  s3_prefix :: string

text \<open>
  The \<^verbatim>\<open>except\<close> clauses of the next two methods log and re-raise. In
  \<^verbatim>\<open>_upload_to_s3\<close> the message logged after \<^verbatim>\<open>put_object\<close> takes \<^verbatim>\<open>len(data)\<close>, inside
  the \<^verbatim>\<open>try\<close>: for a body without a length the object is written and the method raises
  TypeError.
\<close>

definition fetch_data_from_api ::
  "('w, 't) env \<Rightarrow> ingestor \<Rightarrow> string \<Rightarrow> (string \<times> string) list \<Rightarrow> 'w \<Rightarrow> (exn + json) \<times> 'w" where
  "fetch_data_from_api E self endpoint params w =
     requests_get_json E (api_base_url self @ ''/'' @ endpoint) (''Bearer '' @ api_key self) params w"

definition upload_to_s3 ::
  "('w, 't) env \<Rightarrow> ingestor \<Rightarrow> json \<Rightarrow> string \<Rightarrow> string \<Rightarrow> 'w \<Rightarrow> (exn + string) \<times> 'w" where
  "upload_to_s3 E self data data_type date_str w =
     (case datetime_now E w of (t, w1) \<Rightarrow>
        (let file_name = raw_file_name data_type date_str (strftime E t ''%H%M%S'');
             s3_key = raw_s3_key (s3_prefix self) data_type date_str file_name;
             json_data = json_dumps E (Some 2) data
         in case s3_put_object E (s3_bucket_name self) s3_key json_data w1 of
              (Inl e, w2) \<Rightarrow> (Inl e, w2)
            | (Inr u, w2) \<Rightarrow>
                (case py_len data of
                   Inl e \<Rightarrow> (Inl e, w2)
                 | Inr n \<Rightarrow> (Inr s3_key, w2))))"

definition ingest_company_financials ::
  "('w, 't) env \<Rightarrow> ingestor \<Rightarrow> string \<Rightarrow> string \<Rightarrow> 'w \<Rightarrow> (exn + string) \<times> 'w" where
  "ingest_company_financials E self symbol period w =
     (case fetch_data_from_api E self (''financials/'' @ symbol)
             [(''symbol'', symbol), (''period'', period)] w of
        (Inl e, w1) \<Rightarrow> (Inl e, w1)
      | (Inr data, w1) \<Rightarrow>
          (case datetime_now E w1 of (t, w2) \<Rightarrow>
             upload_to_s3 E self data ''company_financials'' (strftime E t ''%Y-%m-%d'') w2))"

definition ingest_market_data ::
  "('w, 't) env \<Rightarrow> ingestor \<Rightarrow> string \<Rightarrow> string \<Rightarrow> string \<Rightarrow> 'w \<Rightarrow> (exn + string) \<times> 'w" where
  "ingest_market_data E self market_index from_date to_date w =
     (case fetch_data_from_api E self (''market/'' @ market_index @ ''/historical'')
             [(''index'', market_index), (''from'', from_date), (''to'', to_date)] w of
        (Inl e, w1) \<Rightarrow> (Inl e, w1)
      | (Inr data, w1) \<Rightarrow>
          (case datetime_now E w1 of (t, w2) \<Rightarrow>
             upload_to_s3 E self data ''market_data'' (strftime E t ''%Y-%m-%d'') w2))"

text \<open>
  The two loops of \<^verbatim>\<open>run_daily_ingestion\<close>. Each body is a \<^verbatim>\<open>try\<close> whose
  \<^verbatim>\<open>except Exception\<close> clause only logs: on \<open>Inl e\<close> the loop goes on with
  \<open>ingested_keys\<close> as it was.
\<close>

fun symbols_loop ::
  "('w, 't) env \<Rightarrow> ingestor \<Rightarrow> string list \<Rightarrow> string list \<Rightarrow> 'w \<Rightarrow> string list \<times> 'w" where
  "symbols_loop E self [] ingested_keys w = (ingested_keys, w)"
| "symbols_loop E self (symbol # rest) ingested_keys w =
     (case ingest_company_financials E self symbol ''quarterly'' w of
        (Inr key, w1) \<Rightarrow> symbols_loop E self rest (ingested_keys @ [key]) w1
      | (Inl e, w1) \<Rightarrow> symbols_loop E self rest ingested_keys w1)"

fun indices_loop ::
  "('w, 't) env \<Rightarrow> ingestor \<Rightarrow> string \<Rightarrow> string \<Rightarrow> string list \<Rightarrow> string list \<Rightarrow> 'w
     \<Rightarrow> string list \<times> 'w" where
  "indices_loop E self yesterday_str today_str [] ingested_keys w = (ingested_keys, w)"
| "indices_loop E self yesterday_str today_str (market_index # rest) ingested_keys w =
     (case ingest_market_data E self market_index yesterday_str today_str w of
        (Inr key, w1) \<Rightarrow>
          indices_loop E self yesterday_str today_str rest (ingested_keys @ [key]) w1
      | (Inl e, w1) \<Rightarrow> indices_loop E self yesterday_str today_str rest ingested_keys w1)"

definition run_daily_ingestion ::
  "('w, 't) env \<Rightarrow> ingestor \<Rightarrow> string list \<Rightarrow> string list \<Rightarrow> 'w \<Rightarrow> (exn + string list) \<times> 'w" where
  "run_daily_ingestion E self symbols market_indices w =
     (case datetime_now E w of (t1, w1) \<Rightarrow>
      case datetime_now E w1 of (t2, w2) \<Rightarrow>
        (let today_str = strftime E t1 ''%Y-%m-%d'';
             yesterday_str = strftime E (minus_one_day E t2) ''%Y-%m-%d''
         in case symbols_loop E self symbols [] w2 of (keys1, w3) \<Rightarrow>
            case indices_loop E self yesterday_str today_str market_indices keys1 w3 of
              (keys2, w4) \<Rightarrow> (Inr keys2, w4)))"

section \<open>The Reactor: \<^verbatim>\<open>data_processing_lambda\<close>\<close>

text \<open>
  \<^verbatim>\<open>x[k]\<close> with a string key: a dictionary returns the entry or raises KeyError; a
  string or a list wants an integer index, the other values are not subscriptable.
\<close>

fun py_getitem :: "json \<Rightarrow> string \<Rightarrow> exn + json" where
  "py_getitem (JObj kvs) k = (case map_of kvs k of None \<Rightarrow> Inl (KeyError k) | Some v \<Rightarrow> Inr v)"
| "py_getitem _ k = Inl TypeError"

text \<open>
  \<^verbatim>\<open>k in x\<close> for a string \<open>k\<close>: a key of a dictionary, an element of a list, a
  substring of a string; the other values are not containers.
\<close>

fun py_contains :: "string \<Rightarrow> json \<Rightarrow> exn + bool" where
  "py_contains k (JObj kvs) = Inr (map_of kvs k \<noteq> None)"
| "py_contains k (JArr xs) = Inr (JStr k \<in> set xs)"
| "py_contains k (JStr s) = Inr (sublist k s)"
| "py_contains k _ = Inl TypeError"

text \<open>The \<^verbatim>\<open>except\<close> clauses of \<^verbatim>\<open>load_raw_data_from_s3\<close> log and re-raise.\<close>

definition load_raw_data_from_s3 ::
  "('w, 't) env \<Rightarrow> json \<Rightarrow> json \<Rightarrow> 'w \<Rightarrow> (exn + json) \<times> 'w" where
  "load_raw_data_from_s3 E bucket key w =
     (case s3_get_object E bucket key w of
        (Inl e, w1) \<Rightarrow> (Inl e, w1)
      | (Inr body, w1) \<Rightarrow> (bind_exn (decode_utf8 E body) (json_loads E), w1))"

definition upload_processed_data_to_s3 ::
  "('w, 't) env \<Rightarrow> json \<Rightarrow> string \<Rightarrow> 'w \<Rightarrow> (exn + string) \<times> 'w" where
  "upload_processed_data_to_s3 E data original_s3_key w =
     (let new_s3_key = derive_processed_key (PROCESSED_S3_PREFIX E) original_s3_key;
          json_data = json_dumps E (Some 2) data
      in case s3_put_object E (PROCESSED_S3_BUCKET E) new_s3_key json_data w of
           (Inl e, w1) \<Rightarrow> (Inl e, w1)
         | (Inr u, w1) \<Rightarrow> (Inr new_s3_key, w1))"

text \<open>Step 2 of the handler: the data type read from the key.\<close>

definition data_type_of_key :: "string \<Rightarrow> string" where
  "data_type_of_key key =
     (let key_parts = split_on CHR ''/'' key in
      if 1 < length key_parts \<and> key_parts ! 0 = ''financial_data'' then key_parts ! 1
      else ''unknown'')"

text \<open>
  The \<^verbatim>\<open>try\<close> block of the handler for one notification. Its \<^verbatim>\<open>except Exception\<close>
  clause logs and re-raises, so an \<open>Inl\<close> comes out as it is. A key that is not a string
  has no \<^verbatim>\<open>split\<close>.
\<close>

definition process_object :: "('w, 't) env \<Rightarrow> json \<Rightarrow> json \<Rightarrow> 'w \<Rightarrow> (exn + string) \<times> 'w" where
  "process_object E bucket key w =
     (case load_raw_data_from_s3 E bucket key w of
        (Inl e, w1) \<Rightarrow> (Inl e, w1)
      | (Inr raw_data, w1) \<Rightarrow>
          (case key of
             JStr k \<Rightarrow>
               (case transform_financial_data (py_builtins E) raw_data (data_type_of_key k) of
                  Inl e \<Rightarrow> (Inl e, w1)
                | Inr processed_data \<Rightarrow> upload_processed_data_to_s3 E processed_data k w1)
           | _ \<Rightarrow> (Inl AttributeError, w1)))"

text \<open>
  The body of the handler's loop for one entry of \<^verbatim>\<open>event['Records']\<close>: an entry
  without \<^verbatim>\<open>'s3'\<close> is passed over (\<^verbatim>\<open>continue\<close>); otherwise the bucket
  \<^verbatim>\<open>record['s3']['bucket']['name']\<close> and the key \<^verbatim>\<open>record['s3']['object']['key']\<close> are
  read and the object is processed.
\<close>

definition record_bucket :: "json \<Rightarrow> exn + json" where
  "record_bucket record =
     bind_exn (py_getitem record ''s3'') (\<lambda>s3.
     bind_exn (py_getitem s3 ''bucket'') (\<lambda>b. py_getitem b ''name''))"

definition record_key :: "json \<Rightarrow> exn + json" where
  "record_key record =
     bind_exn (py_getitem record ''s3'') (\<lambda>s3.
     bind_exn (py_getitem s3 ''object'') (\<lambda>ob. py_getitem ob ''key''))"

definition handle_record :: "('w, 't) env \<Rightarrow> json \<Rightarrow> 'w \<Rightarrow> (exn + unit) \<times> 'w" where
  "handle_record E record w =
     (case py_contains ''s3'' record of
        Inl e \<Rightarrow> (Inl e, w)
      | Inr False \<Rightarrow> (Inr (), w)
      | Inr True \<Rightarrow>
          (case record_bucket record of
             Inl e \<Rightarrow> (Inl e, w)
           | Inr bucket \<Rightarrow>
               (case record_key record of
                  Inl e \<Rightarrow> (Inl e, w)
                | Inr key \<Rightarrow>
                    (case process_object E bucket key w of
                       (Inl e, w1) \<Rightarrow> (Inl e, w1)
                     | (Inr processed_s3_key, w1) \<Rightarrow> (Inr (), w1)))))"

text \<open>The \<^verbatim>\<open>for\<close> loop of the handler: the first exception ends it.\<close>

fun handle_records :: "('w, 't) env \<Rightarrow> json list \<Rightarrow> 'w \<Rightarrow> (exn + unit) \<times> 'w" where
  "handle_records E [] w = (Inr (), w)"
| "handle_records E (record # rest) w =
     (case handle_record E record w of
        (Inl e, w1) \<Rightarrow> (Inl e, w1)
      | (Inr u, w1) \<Rightarrow> handle_records E rest w1)"

text \<open>
  The handler: the loop over \<^verbatim>\<open>event['Records']\<close>, then the dictionary literal with
  the status code \<open>200\<close> and the body \<^verbatim>\<open>json.dumps('Data processing complete.')\<close>.
\<close>

definition lambda_handler :: "('w, 't) env \<Rightarrow> json \<Rightarrow> 'w \<Rightarrow> (exn + json) \<times> 'w" where
  "lambda_handler E event w =
     (case bind_exn (py_getitem event ''Records'') py_iter of
        Inl e \<Rightarrow> (Inl e, w)
      | Inr records \<Rightarrow>
          (case handle_records E records w of
             (Inl e, w1) \<Rightarrow> (Inl e, w1)
           | (Inr u, w1) \<Rightarrow>
               (Inr (JObj [(''statusCode'', JInt 200),
                           (''body'', JStr (json_dumps E None (JStr ''Data processing complete.'')))]),
                w1)))"

section \<open>The Credential Provider: \<^verbatim>\<open>secrets_manager\<close>\<close>

text \<open>
  \<^verbatim>\<open>get_secret\<close>: every branch of its \<^verbatim>\<open>except ClientError\<close> clause logs and
  re-raises. A response without \<^verbatim>\<open>SecretString\<close> is read at \<^verbatim>\<open>SecretBinary\<close>.
\<close>

definition get_secret :: "('w, 't) env \<Rightarrow> string \<Rightarrow> 'w \<Rightarrow> (exn + string) \<times> 'w" where
  "get_secret E secret_arn w =
     (case get_secret_value E secret_arn w of
        (Inl e, w1) \<Rightarrow> (Inl e, w1)
      | (Inr response, w1) \<Rightarrow>
          (case SecretString response of
             Some s \<Rightarrow> (Inr s, w1)
           | None \<Rightarrow>
               (case SecretBinary response of
                  None \<Rightarrow> (Inl (KeyError ''SecretBinary''), w1)
                | Some b \<Rightarrow> (decode_utf8 E b, w1))))"

definition key_not_found_message :: "string \<Rightarrow> string \<Rightarrow> string" where
  "key_not_found_message key_name secret_arn =
     ''Key '' @ [CHR 0x27] @ key_name @ [CHR 0x27] @ '' not found in secret JSON for '' @ secret_arn"

definition not_valid_json_message :: "string \<Rightarrow> string" where
  "not_valid_json_message secret_arn = ''Secret string is not valid JSON for '' @ secret_arn"

text \<open>
  The \<^verbatim>\<open>try\<close> statement of \<^verbatim>\<open>get_api_key_from_secret\<close> on a payload. A
  \<^verbatim>\<open>JSONDecodeError\<close> becomes a \<^verbatim>\<open>ValueError\<close>; the \<^verbatim>\<open>ValueError\<close> raised inside
  the block for a falsy field, and any other exception, reach \<^verbatim>\<open>except Exception\<close>,
  which logs and re-raises.
\<close>

definition api_key_of_payload ::
  "('w, 't) env \<Rightarrow> string \<Rightarrow> string \<Rightarrow> string \<Rightarrow> exn + json" where
  "api_key_of_payload E secret_arn key_name secret_string =
     (case json_loads E secret_string of
        Inl JSONDecodeError \<Rightarrow> Inl (ValueError (not_valid_json_message secret_arn))
      | Inl e \<Rightarrow> Inl e
      | Inr secret_dict \<Rightarrow>
          (case py_get secret_dict key_name JNull of
             Inl e \<Rightarrow> Inl e
           | Inr key_value \<Rightarrow>
               if \<not> truthy key_value
               then Inl (ValueError (key_not_found_message key_name secret_arn))
               else Inr key_value))"

definition get_api_key_from_secret ::
  "('w, 't) env \<Rightarrow> string \<Rightarrow> string \<Rightarrow> 'w \<Rightarrow> (exn + json) \<times> 'w" where
  "get_api_key_from_secret E secret_arn key_name w =
     (case get_secret E secret_arn w of
        (Inl e, w1) \<Rightarrow> (Inl e, w1)
      | (Inr secret_string, w1) \<Rightarrow> (api_key_of_payload E secret_arn key_name secret_string, w1))"

section \<open>Reference definitions\<close>

text \<open>
  The definitions of this section are not translated from the source: they say in
  words of the specification what the theorems below compare the code with.
\<close>

text \<open>\<^verbatim>\<open>sep.join(xs)\<close>.\<close>

fun join_with :: "string \<Rightarrow> string list \<Rightarrow> string" where
  "join_with sep [] = []"
| "join_with sep [x] = x"
| "join_with sep (x # y # ys) = x @ sep @ join_with sep (y # ys)"

text \<open>
  The five-field mapping of a \<^verbatim>\<open>company_financials\<close> record, \<^verbatim>\<open>netIncome\<close> renamed
  to \<^verbatim>\<open>net_income\<close>, a missing field read as \<^verbatim>\<open>None\<close>.
\<close>

definition spec_company_fields :: "(string \<times> json) list \<Rightarrow> (string \<times> json) list" where
  "spec_company_fields d =
     [(''symbol'', dict_get d ''symbol'' JNull),
      (''date'', dict_get d ''date'' JNull),
      (''revenue'', dict_get d ''revenue'' JNull),
      (''net_income'', dict_get d ''netIncome'' JNull),
      (''currency'', dict_get d ''currency'' JNull)]"

text \<open>
  The outcome of every item of a list, in order: each is run in the world the one before
  left behind, whether that one returned a key or raised.
\<close>

fun outcomes :: "('a \<Rightarrow> 'w \<Rightarrow> (exn + string) \<times> 'w) \<Rightarrow> 'a list \<Rightarrow> 'w \<Rightarrow> (exn + string) list \<times> 'w" where
  "outcomes f [] w = ([], w)"
| "outcomes f (x # xs) w =
     (case f x w of (r, w1) \<Rightarrow> (case outcomes f xs w1 of (rs, w2) \<Rightarrow> (r # rs, w2)))"

text \<open>The keys of the items that returned one.\<close>

fun written_keys :: "(exn + string) list \<Rightarrow> string list" where
  "written_keys [] = []"
| "written_keys (Inr key # rs) = key # written_keys rs"
| "written_keys (Inl e # rs) = written_keys rs"

text \<open>
  The outcomes of a daily run: after the two readings of the clock, one outcome per
  symbol from \<open>ingest_company_financials\<close> with the period \<^verbatim>\<open>quarterly\<close>, then one
  per market index from \<open>ingest_market_data\<close> between yesterday and today.
\<close>

definition daily_outcomes ::
  "('w, 't) env \<Rightarrow> ingestor \<Rightarrow> string list \<Rightarrow> string list \<Rightarrow> 'w \<Rightarrow> (exn + string) list \<times> 'w" where
  "daily_outcomes E self symbols market_indices w =
     (case datetime_now E w of (t1, w1) \<Rightarrow>
      case datetime_now E w1 of (t2, w2) \<Rightarrow>
      case outcomes (\<lambda>symbol. ingest_company_financials E self symbol ''quarterly'') symbols w2 of
        (rs1, w3) \<Rightarrow>
      case outcomes (\<lambda>market_index. ingest_market_data E self market_index
                        (strftime E (minus_one_day E t2) ''%Y-%m-%d'') (strftime E t1 ''%Y-%m-%d''))
             market_indices w3 of
        (rs2, w4) \<Rightarrow> (rs1 @ rs2, w4))"

text \<open>A storage notification as the event trigger delivers it.\<close>

definition s3_notification :: "string \<Rightarrow> string \<Rightarrow> json" where
  "s3_notification bucket key =
     JObj [(''s3'', JObj [(''bucket'', JObj [(''name'', JStr bucket)]),
                          (''object'', JObj [(''key'', JStr key)])])]"

text \<open>An event with the given entries.\<close>

definition s3_event :: "json list \<Rightarrow> json" where
  "s3_event records = JObj [(''Records'', JArr records)]"

subsection \<open>A sample environment\<close>

text \<open>
  A small world for the examples. Its state is the list of the keys written so far.
  The raw store holds an empty JSON array at \<open>demo_key_present\<close> and at
  \<open>demo_key_denied\<close>, the number \<open>5\<close> at \<open>demo_key_scalar\<close>, and nothing else; writes are
  refused for the processed key of \<open>demo_key_denied\<close> and for one raw key. The API fails
  for the symbol \<^verbatim>\<open>MSFT\<close> and answers the index \<^verbatim>\<open>NDX\<close> with a number. The clock
  shows the second after 10:30:00 that the number of keys written gives.
  \<open>json_loads\<close> knows four payloads and rejects the others.
\<close>

definition demo_key_present :: string where
  "demo_key_present = ''financial_data/market_data/2024-01-01/a.json''"

definition demo_key_absent :: string where
  "demo_key_absent = ''financial_data/market_data/2024-01-01/b.json''"

definition demo_key_scalar :: string where
  "demo_key_scalar = ''financial_data/market_data/2024-01-01/c.json''"

definition demo_key_denied :: string where
  "demo_key_denied = ''financial_data/market_data/2024-01-01/d.json''"

text \<open>An entry of \<^verbatim>\<open>Records\<close> that is not a storage notification.\<close>

definition demo_record_without_s3 :: json where
  "demo_record_without_s3 = JObj [(''EventSource'', JStr ''aws:sns'')]"

text \<open>A notification whose key is a number, and one without a bucket.\<close>

definition demo_record_numeric_key :: json where
  "demo_record_numeric_key =
     JObj [(''s3'', JObj [(''bucket'', JObj [(''name'', JStr ''raw'')]),
                          (''object'', JObj [(''key'', JInt 7)])])]"

definition demo_record_without_bucket :: json where
  "demo_record_without_bucket = JObj [(''s3'', JObj [])]"

definition demo_env :: "(string list, nat) env" where
  \<open>demo_env = \<lparr>
     s3_get_object = (\<lambda>bucket key w.
        if key = JStr ''financial_data/market_data/2024-01-01/a.json''
           \<or> key = JStr ''financial_data/market_data/2024-01-01/d.json''
        then (Inr ''[]'', w)
        else if key = JStr ''financial_data/market_data/2024-01-01/c.json''
        then (Inr ''5'', w)
        else (Inl (ClientError ''NoSuchKey''), w)),
     s3_put_object = (\<lambda>bucket key body w.
        if key = ''processed_data/market_data/2024-01-01/d.json''
           \<or> key = ''financial_data/company_financials/2024-01-01/company_financials_2024-01-01_103001.json''
        then (Inl (ClientError ''AccessDenied''), w)
        else (Inr (), w @ [key])),
     requests_get_json = (\<lambda>url auth params w.
        if url = ''https://api.example.com/v1/financials/MSFT''
        then (Inl (RequestException ''500''), w)
        else if url = ''https://api.example.com/v1/market/NDX/historical''
        then (Inr (JInt 7), w)
        else (Inr (JArr []), w)),
     get_secret_value = (\<lambda>arn w. (Inr \<lparr>SecretString = Some ''{}'', SecretBinary = None\<rparr>, w)),
     datetime_now = (\<lambda>w. (length w, w)),
     strftime = (\<lambda>t fmt.
        if fmt = ''%H%M%S''
        then (if t = 0 then ''103000'' else if t = 1 then ''103001'' else ''103002'')
        else ''2024-01-01''),
     minus_one_day = (\<lambda>t. t),
     decode_utf8 = Inr,
     json_loads = (\<lambda>s.
        if s = ''{"api_key":"X"}'' then Inr (JObj [(''api_key'', JStr ''X'')])
        else if s = ''{}'' then Inr (JObj [])
        else if s = ''[]'' then Inr (JArr [])
        else if s = ''5'' then Inr (JInt 5)
        else Inl JSONDecodeError),
     json_dumps = (\<lambda>indent v. case v of JStr s \<Rightarrow> [CHR 0x22] @ s @ [CHR 0x22] | _ \<Rightarrow> ''[]''),
     py_builtins = \<lparr>float_of_str = (\<lambda>s. Inl (ValueError s)), int_of_str = (\<lambda>s. Inl (ValueError s))\<rparr>,
     PROCESSED_S3_BUCKET = ''cb-global-processed-financial-data'',
     PROCESSED_S3_PREFIX = ''processed_data''\<rparr>\<close>

definition demo_ingestor :: ingestor where
  "demo_ingestor = \<lparr>api_base_url = ''https://api.example.com/v1'', api_key = ''k'',
     s3_bucket_name = ''cb-global-raw-financial-data'', s3_prefix = ''financial_data''\<rparr>"

text \<open>
  Two raw \<^verbatim>\<open>company_financials\<close> records: the one of the specification with a revenue
  of zero, and a complete one.
\<close>

definition demo_zero_revenue :: "(string \<times> json) list" where
  "demo_zero_revenue =
     [(''symbol'', JStr ''AAPL''), (''date'', JStr ''2024-01-01''), (''revenue'', JInt 0),
      (''netIncome'', JInt 500), (''currency'', JStr ''USD'')]"

definition demo_complete :: "(string \<times> json) list" where
  "demo_complete =
     [(''symbol'', JStr ''MSFT''), (''date'', JStr ''2024-01-01''), (''revenue'', JInt 900),
      (''netIncome'', JInt 300), (''currency'', JStr ''USD''), (''note'', JNull)]"

section \<open>The Normalizer: the theorems\<close>

lemma bind_exn_Inr [simp]: "bind_exn (Inr x) f = f x"
  by (simp add: bind_exn_def)

lemma bind_exn_Inl [simp]: "bind_exn (Inl e) f = Inl e"
  by (simp add: bind_exn_def)

lemma double_overflow_bound_small [simp]:
  "0 < double_overflow_bound" "1 < double_overflow_bound" "50 < double_overflow_bound"
  by (simp_all add: double_overflow_bound_def)

lemma py_iter_has_len: "py_iter v = Inr xs \<Longrightarrow> \<exists>n. py_len v = Inr n"
  by (cases v) simp_all

lemma company_record_dict: "company_record (JObj d) = Inr (spec_company_fields d)"
  by (simp add: company_record_def spec_company_fields_def)

lemma company_loop_dicts:
  "company_loop (map JObj ds) acc =
     Inr (acc @ map JObj (filter (\<lambda>fs. list_all truthy (map snd fs)) (map spec_company_fields ds)))"
  by (induction ds arbitrary: acc) (simp_all add: company_record_dict)

lemma truthy_iff:
  "truthy v \<longleftrightarrow> v \<notin> {JNull, JBool False, JInt 0, JFloat 0, JStr [], JArr [], JObj []}"
  by (cases v) auto

text \<open>
  Claim C2. On a list of \<^verbatim>\<open>company_financials\<close> dictionaries the Normalizer returns,
  in input order, the five-field mappings all of whose values are truthy, and only
  those. A value is truthy unless it is \<^verbatim>\<open>None\<close>, \<^verbatim>\<open>False\<close>, a zero, or an empty string,
  list or dictionary. A record whose revenue is \<open>0\<close> is therefore not in the output.
\<close>

theorem transform_company_financials:
  "transform_financial_data B (JArr (map JObj ds)) ''company_financials'' =
     Inr (JArr (map JObj (filter (\<lambda>fs. list_all truthy (map snd fs))
                                 (map spec_company_fields ds))))
   \<and> (\<forall>v. truthy v \<longleftrightarrow>
          v \<notin> {JNull, JBool False, JInt 0, JFloat 0, JStr [], JArr [], JObj []})
   \<and> (\<forall>d out. transform_financial_data B (JArr (map JObj ds)) ''company_financials'' = Inr (JArr out)
          \<and> dict_get d ''revenue'' JNull = JInt 0
        \<longrightarrow> JObj (spec_company_fields d) \<notin> set out)"
proof -
  have run: "transform_financial_data B (JArr (map JObj ds)) ''company_financials'' =
     Inr (JArr (map JObj (filter (\<lambda>fs. list_all truthy (map snd fs))
                                 (map spec_company_fields ds))))"
    by (simp add: transform_financial_data_def company_loop_dicts)
  have zero: "JObj (spec_company_fields d) \<notin>
      set (map JObj (filter (\<lambda>fs. list_all truthy (map snd fs)) (map spec_company_fields ds)))"
    if "dict_get d ''revenue'' JNull = JInt 0" for d
  proof
    assume "JObj (spec_company_fields d) \<in>
      set (map JObj (filter (\<lambda>fs. list_all truthy (map snd fs)) (map spec_company_fields ds)))"
    then have "list_all truthy (map snd (spec_company_fields d))" by auto
    with that show False by (simp add: spec_company_fields_def)
  qed
  show ?thesis
    using run zero truthy_iff by (simp only: sum.inject json.inject) blast
qed

text \<open>
  The zero-revenue record of the specification followed by a complete record: only the
  second is kept, with \<^verbatim>\<open>netIncome\<close> renamed and its extra field dropped.
\<close>

theorem transform_company_financials_witness:
  "transform_financial_data (py_builtins demo_env)
       (JArr (map JObj [demo_zero_revenue, demo_complete])) ''company_financials'' =
     Inr (JArr [JObj [(''symbol'', JStr ''MSFT''), (''date'', JStr ''2024-01-01''),
                      (''revenue'', JInt 900), (''net_income'', JInt 300),
                      (''currency'', JStr ''USD'')]])
   \<and> dict_get demo_zero_revenue ''revenue'' JNull = JInt 0
   \<and> JObj (spec_company_fields demo_zero_revenue) \<notin>
       set [JObj [(''symbol'', JStr ''MSFT''), (''date'', JStr ''2024-01-01''),
                  (''revenue'', JInt 900), (''net_income'', JInt 300),
                  (''currency'', JStr ''USD'')]]"
proof -
  let ?out = "[JObj [(''symbol'', JStr ''MSFT''), (''date'', JStr ''2024-01-01''),
                     (''revenue'', JInt 900), (''net_income'', JInt 300),
                     (''currency'', JStr ''USD'')]]"
  note t = transform_company_financials
    [of "py_builtins demo_env" "[demo_zero_revenue, demo_complete]"]
  have ev: "map JObj (filter (\<lambda>fs. list_all truthy (map snd fs))
              (map spec_company_fields [demo_zero_revenue, demo_complete])) = ?out"
    by (simp add: spec_company_fields_def dict_get_def demo_zero_revenue_def demo_complete_def)
  from t have run: "transform_financial_data (py_builtins demo_env)
       (JArr (map JObj [demo_zero_revenue, demo_complete])) ''company_financials'' =
     Inr (JArr ?out)"
    unfolding ev by (rule conjunct1)
  have z: "dict_get demo_zero_revenue ''revenue'' JNull = JInt 0"
    by (simp add: dict_get_def demo_zero_revenue_def)
  from t run z have "JObj (spec_company_fields demo_zero_revenue) \<notin> set ?out"
    by blast
  with run z show ?thesis by blast
qed

text \<open>
  The \<^verbatim>\<open>market_data\<close> branch, one record at a time. When the record has an \<^verbatim>\<open>open\<close>
  entry the three reads of it agree and the percentage is the formula, or \<open>0\<close> for an
  opening value of zero. When it has none, the numerator reads \<open>0\<close> and the divisor
  \<open>1\<close>: the percentage is a hundred times the closing value.
\<close>

lemma daily_change_pct_open_present:
  assumes "map_of d ''open'' = Some ov" "py_float B ov = Inr opn"
    "py_float B (dict_get d ''close'' (JInt 0)) = Inr close"
  shows "daily_change_pct B (JObj d) =
           Inr (if opn \<noteq> 0 then JFloat ((close - opn) / opn * 100) else JInt 0)"
  using assms by (simp add: daily_change_pct_def dict_get_def)

lemma daily_change_pct_open_absent:
  assumes "map_of d ''open'' = None"
    "py_float B (dict_get d ''close'' (JInt 0)) = Inr close"
  shows "daily_change_pct B (JObj d) = Inr (JFloat (close * 100))"
  using assms by (simp add: daily_change_pct_def dict_get_def)

text \<open>
  Claim C1. The claim wants \<^verbatim>\<open>daily_change_pct\<close> to be \<open>0\<close> when the record has no
  \<^verbatim>\<open>open\<close> entry, the missing value read as \<open>0\<close>. The code does not do that: on the
  record \<^verbatim>\<open>{"close": 50}\<close> the normalized record has \<^verbatim>\<open>open\<close> equal to \<open>0\<close> and
  \<^verbatim>\<open>daily_change_pct\<close> equal to \<open>5000\<close>.
\<close>

theorem transform_market_data_without_open:
  "transform_financial_data B (JArr [JObj [(''close'', JInt 50)]]) ''market_data'' =
     Inr (JArr [JObj [(''index'', JNull), (''date'', JNull), (''open'', JFloat 0),
                      (''close'', JFloat 50), (''volume'', JInt 0),
                      (''daily_change_pct'', JFloat 5000)]])"
  by (simp add: transform_financial_data_def market_record_def daily_change_pct_def dict_get_def)

text \<open>
  Claim C6. For a data type other than \<^verbatim>\<open>company_financials\<close> and \<^verbatim>\<open>market_data\<close> the
  Normalizer returns its input, whatever value it is, unchanged.
\<close>

theorem transform_unknown_data_type:
  assumes "data_type \<noteq> ''company_financials''" "data_type \<noteq> ''market_data''"
  shows "transform_financial_data B raw_data data_type = Inr raw_data"
  using assms by (simp add: transform_financial_data_def)

theorem transform_unknown_data_type_witness:
  "''unknown'' \<noteq> ''company_financials'' \<and> ''unknown'' \<noteq> ''market_data''
   \<and> transform_financial_data (py_builtins demo_env)
        (JObj [(''rows'', JArr [JInt 1, JNull])]) ''unknown'' =
      Inr (JObj [(''rows'', JArr [JInt 1, JNull])])"
proof -
  have h1: "''unknown'' \<noteq> ''company_financials''" by simp
  have h2: "''unknown'' \<noteq> ''market_data''" by simp
  from transform_unknown_data_type [OF h1 h2] h1 h2 show ?thesis by blast
qed

section \<open>Splitting keys\<close>

lemma split_on_not_Nil: "split_on c s \<noteq> []"
  by (induction s) (auto split: list.splits)

lemma split_on_no_sep: "c \<notin> set s \<Longrightarrow> split_on c s = [s]"
  by (induction s) auto

lemma split_on_append_sep:
  "c \<notin> set b \<Longrightarrow> split_on c (a @ c # b) = split_on c a @ [b]"
proof (induction a)
  case Nil
  then show ?case by (simp add: split_on_no_sep)
next
  case (Cons x a)
  then show ?case
    using split_on_not_Nil [of c a] by (auto split: list.splits)
qed

lemma split_on_segments: "p \<in> set (split_on c s) \<Longrightarrow> c \<notin> set p"
  by (induction s arbitrary: p) (auto split: list.splits if_splits)

lemma basename_no_sep: "CHR ''/'' \<notin> set (basename p)"
  unfolding basename_def
  by (metis (mono_tags, lifting) set_rev set_takeWhileD)

lemma basename_after_last_sep:
  assumes "CHR ''/'' \<notin> set b"
  shows "basename (a @ CHR ''/'' # b) = b"
proof -
  have "takeWhile (\<lambda>c. c \<noteq> CHR ''/'') (rev b @ CHR ''/'' # rev a) = rev b"
    using assms by (auto simp: takeWhile_tail)
  then show ?thesis by (simp add: basename_def)
qed

lemma basename_last: "basename p = last (split_on CHR ''/'' p)"
proof (cases "CHR ''/'' \<in> set p")
  case True
  then obtain a b where p: "p = a @ CHR ''/'' # b" and b: "CHR ''/'' \<notin> set b"
    by (meson split_list_last)
  show ?thesis
    unfolding p by (simp add: basename_after_last_sep b split_on_append_sep)
next
  case False
  then have "\<forall>x\<in>set (rev p). x \<noteq> CHR ''/''" by auto
  then have tw: "takeWhile (\<lambda>c. c \<noteq> CHR ''/'') (rev p) = rev p"
    by (rule takeWhile_eq_all_conv [THEN iffD2])
  show ?thesis
    unfolding basename_def tw using False by (simp add: split_on_no_sep)
qed

lemma last_three:
  assumes "3 \<le> length xs"
  shows "\<exists>ys a b c. xs = ys @ [a, b, c]"
proof -
  from assms obtain xs1 c where 1: "xs = xs1 @ [c]"
    by (cases xs rule: rev_cases) auto
  with assms obtain xs2 b where 2: "xs1 = xs2 @ [b]"
    by (cases xs1 rule: rev_cases) auto
  with 1 assms obtain ys a where 3: "xs2 = ys @ [a]"
    by (cases xs2 rule: rev_cases) auto
  show ?thesis using 1 2 3 by simp
qed

lemma split_on_three_more:
  assumes "c \<notin> set x" "c \<notin> set y" "c \<notin> set z"
  shows "split_on c (p @ c # x @ c # y @ c # z) = split_on c p @ [x, y, z]"
proof -
  have "split_on c ((p @ c # x @ c # y) @ c # z) = split_on c (p @ c # x @ c # y) @ [z]"
    using assms(3) by (rule split_on_append_sep)
  moreover have "split_on c ((p @ c # x) @ c # y) = split_on c (p @ c # x) @ [y]"
    using assms(2) by (rule split_on_append_sep)
  moreover have "split_on c (p @ c # x) = split_on c p @ [x]"
    using assms(1) by (rule split_on_append_sep)
  ultimately show ?thesis by simp
qed

lemma derive_processed_key_cases:
  assumes "split_on CHR ''/'' k = ys @ [a, b, c]" "ys \<noteq> []"
  shows "derive_processed_key pp k = pp @ ''/'' @ a @ ''/'' @ b @ ''/'' @ c"
proof -
  have "4 \<le> length (split_on CHR ''/'' k)"
    using assms by (cases ys) auto
  then show ?thesis
    using assms(1) by (simp add: derive_processed_key_def Let_def nth_append)
qed

section \<open>Key derivation: the theorems\<close>

text \<open>
  The key a successful upload returns is the derived key; the key a successful raw
  upload returns is the raw key with the file name of the moment.
\<close>

lemma upload_processed_data_to_s3_key:
  "upload_processed_data_to_s3 E data original_s3_key w = (Inr new_s3_key, w1) \<Longrightarrow>
     new_s3_key = derive_processed_key (PROCESSED_S3_PREFIX E) original_s3_key"
  by (auto simp: upload_processed_data_to_s3_def Let_def split: prod.splits sum.splits)

lemma upload_to_s3_key:
  "upload_to_s3 E self data data_type date_str w = (Inr s3_key, w2) \<Longrightarrow>
     \<exists>hms. s3_key = raw_s3_key (s3_prefix self) data_type date_str
                       (raw_file_name data_type date_str hms)"
  by (auto simp: upload_to_s3_def Let_def split: prod.splits sum.splits)

text \<open>
  Claim C3. When the original key splits on \<open>/\<close> into at least four segments, the
  processed key is the processed prefix, a slash, and the last three segments of the
  original key joined by slashes; and the last three segments of the processed key are
  the last three segments of the original key, unchanged.
\<close>

theorem derive_processed_key_last_three:
  assumes "4 \<le> length (split_on CHR ''/'' original_key)"
  shows "derive_processed_key processed_prefix original_key =
           processed_prefix @ ''/'' @
             join_with ''/'' (drop (length (split_on CHR ''/'' original_key) - 3)
                                   (split_on CHR ''/'' original_key))
         \<and> drop (length (split_on CHR ''/'' (derive_processed_key processed_prefix original_key)) - 3)
              (split_on CHR ''/'' (derive_processed_key processed_prefix original_key)) =
           drop (length (split_on CHR ''/'' original_key) - 3) (split_on CHR ''/'' original_key)"
proof -
  let ?parts = "split_on CHR ''/'' original_key"
  from assms obtain ys a b c where parts: "?parts = ys @ [a, b, c]"
    using last_three [of ?parts] by auto
  with assms have ys: "ys \<noteq> []" by auto
  have key: "derive_processed_key processed_prefix original_key =
      processed_prefix @ ''/'' @ a @ ''/'' @ b @ ''/'' @ c"
    using parts ys by (rule derive_processed_key_cases)
  have nosep: "CHR ''/'' \<notin> set a" "CHR ''/'' \<notin> set b" "CHR ''/'' \<notin> set c"
    using split_on_segments [of _ "CHR ''/''" original_key] parts by auto
  have split': "split_on CHR ''/'' (processed_prefix @ CHR ''/'' # a @ CHR ''/'' # b @ CHR ''/'' # c) =
      split_on CHR ''/'' processed_prefix @ [a, b, c]"
    using nosep by (rule split_on_three_more)
  show ?thesis
    by (simp add: split' parts key)
qed

text \<open>
  The example of the specification: the raw key of a market-data file under
  \<^verbatim>\<open>financial_data\<close> and the prefix \<^verbatim>\<open>processed_data\<close>.
\<close>

theorem derive_processed_key_last_three_witness:
  "4 \<le> length (split_on CHR ''/''
       ''financial_data/market_data/2024-01-01/market_data_2024-01-01_103000.json'')
   \<and> derive_processed_key ''processed_data''
       ''financial_data/market_data/2024-01-01/market_data_2024-01-01_103000.json'' =
     ''processed_data/market_data/2024-01-01/market_data_2024-01-01_103000.json''"
proof -
  have h: "4 \<le> length (split_on CHR ''/''
       ''financial_data/market_data/2024-01-01/market_data_2024-01-01_103000.json'')"
    by simp
  from derive_processed_key_last_three [OF h, of "''processed_data''"] h show ?thesis by simp
qed

text \<open>
  Claim C4. When the original key splits into fewer than four segments, the processed
  key is the processed prefix, \<^verbatim>\<open>/unclassified/\<close> and the base name of the original
  key. The base name is the last segment of the original key, and \<^verbatim>\<open>unclassified\<close> is
  a segment of the processed key.
\<close>

theorem derive_processed_key_unclassified:
  assumes "length (split_on CHR ''/'' original_key) < 4"
  shows "derive_processed_key processed_prefix original_key =
           processed_prefix @ ''/unclassified/'' @ basename original_key
         \<and> basename original_key = last (split_on CHR ''/'' original_key)
         \<and> ''unclassified'' \<in> set (split_on CHR ''/'' (derive_processed_key processed_prefix original_key))"
proof -
  have key: "derive_processed_key processed_prefix original_key =
      processed_prefix @ ''/unclassified/'' @ basename original_key"
    using assms by (simp add: derive_processed_key_def)
  have "split_on CHR ''/'' ((processed_prefix @ CHR ''/'' # ''unclassified'') @ CHR ''/'' # basename original_key) =
      split_on CHR ''/'' (processed_prefix @ CHR ''/'' # ''unclassified'') @ [basename original_key]"
    by (rule split_on_append_sep) (rule basename_no_sep)
  moreover have "split_on CHR ''/'' (processed_prefix @ CHR ''/'' # ''unclassified'') =
      split_on CHR ''/'' processed_prefix @ [''unclassified'']"
    by (rule split_on_append_sep) simp
  ultimately have "split_on CHR ''/'' (derive_processed_key processed_prefix original_key) =
      split_on CHR ''/'' processed_prefix @ [''unclassified'', basename original_key]"
    by (simp add: key)
  then show ?thesis using key basename_last by simp
qed

text \<open>The example of the specification: \<^verbatim>\<open>abc.json\<close>.\<close>

theorem derive_processed_key_unclassified_witness:
  "length (split_on CHR ''/'' ''abc.json'') < 4
   \<and> derive_processed_key ''processed_data'' ''abc.json'' = ''processed_data/unclassified/abc.json''"
proof -
  have h: "length (split_on CHR ''/'' ''abc.json'') < 4" by simp
  from derive_processed_key_unclassified [OF h, of "''processed_data''"] h show ?thesis by (simp add: basename_def)
qed

text \<open>
  Claim C5. For a data type, a date and a file name without a slash, and any raw and
  processed prefixes, the processed key derived from the raw key the Puller builds is
  the processed prefix followed by the same data type, date and file name: the two keys
  differ in the leading prefix only.
\<close>

theorem derive_processed_key_raw_s3_key:
  assumes "CHR ''/'' \<notin> set data_type" "CHR ''/'' \<notin> set date_str" "CHR ''/'' \<notin> set file_name"
  shows "derive_processed_key processed_prefix (raw_s3_key raw_prefix data_type date_str file_name) =
           processed_prefix @ ''/'' @ data_type @ ''/'' @ date_str @ ''/'' @ file_name"
proof -
  have "split_on CHR ''/'' (raw_prefix @ CHR ''/'' # data_type @ CHR ''/'' # date_str @ CHR ''/'' # file_name) =
      split_on CHR ''/'' raw_prefix @ [data_type, date_str, file_name]"
    using assms by (rule split_on_three_more)
  then have "split_on CHR ''/'' (raw_s3_key raw_prefix data_type date_str file_name) =
      split_on CHR ''/'' raw_prefix @ [data_type, date_str, file_name]"
    by (simp add: raw_s3_key_def)
  then show ?thesis
    using split_on_not_Nil by (rule derive_processed_key_cases)
qed


text \<open>The Puller's key for a market-data file written at 10:30:00.\<close>

theorem derive_processed_key_raw_s3_key_witness:
  "CHR ''/'' \<notin> set ''market_data'' \<and> CHR ''/'' \<notin> set ''2024-01-01''
   \<and> CHR ''/'' \<notin> set (raw_file_name ''market_data'' ''2024-01-01'' ''103000'')
   \<and> derive_processed_key ''processed_data''
        (raw_s3_key ''financial_data'' ''market_data'' ''2024-01-01''
           (raw_file_name ''market_data'' ''2024-01-01'' ''103000'')) =
      ''processed_data/market_data/2024-01-01/market_data_2024-01-01_103000.json''"
proof -
  have h1: "CHR ''/'' \<notin> set ''market_data''" by simp
  have h2: "CHR ''/'' \<notin> set ''2024-01-01''" by simp
  have h3: "CHR ''/'' \<notin> set (raw_file_name ''market_data'' ''2024-01-01'' ''103000'')"
    by (simp add: raw_file_name_def)
  from derive_processed_key_raw_s3_key [OF h1 h2 h3, of "''processed_data''" "''financial_data''"]
  show ?thesis
    using h1 h2 h3 by (simp add: raw_file_name_def)
qed


section \<open>The Puller: the theorems\<close>

lemma written_keys_append: "written_keys (rs @ rs') = written_keys rs @ written_keys rs'"
  by (induction rs rule: written_keys.induct) simp_all

lemma length_outcomes: "outcomes f xs w = (rs, w') \<Longrightarrow> length rs = length xs"
  by (induction xs arbitrary: w rs w') (auto split: prod.splits)

lemma symbols_loop_outcomes:
  "symbols_loop E self symbols acc w =
     (case outcomes (\<lambda>symbol. ingest_company_financials E self symbol ''quarterly'') symbols w of
        (rs, w') \<Rightarrow> (acc @ written_keys rs, w'))"
proof (induction symbols arbitrary: acc w)
  case Nil
  show ?case by simp
next
  case (Cons symbol rest)
  show ?case
    by (simp add: Cons.IH split: prod.splits sum.splits)
qed

lemma indices_loop_outcomes:
  "indices_loop E self y t market_indices acc w =
     (case outcomes (\<lambda>market_index. ingest_market_data E self market_index y t) market_indices w of
        (rs, w') \<Rightarrow> (acc @ written_keys rs, w'))"
proof (induction market_indices arbitrary: acc w)
  case Nil
  show ?case by simp
next
  case (Cons market_index rest)
  show ?case
    by (simp add: Cons.IH split: prod.splits sum.splits)
qed

text \<open>
  Claim C7. \<open>run_daily_ingestion\<close> never raises: it returns a list. Every symbol and
  every market index is attempted, whatever happened to the items before it, and the
  list returned holds the keys of the items that returned one, in order, and nothing
  else. An item whose ingestion raises after its write, at \<^verbatim>\<open>len(data)\<close>, is among
  those that raised.
\<close>

theorem run_daily_ingestion_partial_failure:
  "run_daily_ingestion E self symbols market_indices w =
     (Inr (written_keys (fst (daily_outcomes E self symbols market_indices w))),
      snd (daily_outcomes E self symbols market_indices w))
   \<and> length (fst (daily_outcomes E self symbols market_indices w)) =
       length symbols + length market_indices"
proof -
  have "run_daily_ingestion E self symbols market_indices w =
     (Inr (written_keys (fst (daily_outcomes E self symbols market_indices w))),
      snd (daily_outcomes E self symbols market_indices w))"
    by (simp add: run_daily_ingestion_def daily_outcomes_def symbols_loop_outcomes
        indices_loop_outcomes written_keys_append Let_def split: prod.splits)
  moreover have "length (fst (daily_outcomes E self symbols market_indices w)) =
       length symbols + length market_indices"
  proof -
    obtain t1 w1 where a: "datetime_now E w = (t1, w1)" by force
    obtain t2 w2 where b: "datetime_now E w1 = (t2, w2)" by force
    obtain rs1 w3 where
      c: "outcomes (\<lambda>symbol. ingest_company_financials E self symbol ''quarterly'') symbols w2 =
            (rs1, w3)" by force
    obtain rs2 w4 where
      d: "outcomes (\<lambda>market_index. ingest_market_data E self market_index
                        (strftime E (minus_one_day E t2) ''%Y-%m-%d'') (strftime E t1 ''%Y-%m-%d''))
             market_indices w3 = (rs2, w4)" by force
    have "length rs1 = length symbols" using c by (rule length_outcomes)
    moreover have "length rs2 = length market_indices" using d by (rule length_outcomes)
    ultimately show ?thesis by (simp add: daily_outcomes_def a b c d)
  qed
  ultimately show ?thesis by simp
qed

text \<open>What makes an ingestion raise: the API, the write, a body without a length.\<close>

lemma ingest_company_financials_api_raises:
  "fetch_data_from_api E self (''financials/'' @ symbol)
       [(''symbol'', symbol), (''period'', period)] w = (Inl e, w1) \<Longrightarrow>
     ingest_company_financials E self symbol period w = (Inl e, w1)"
  by (simp add: ingest_company_financials_def)

lemma ingest_market_data_api_raises:
  "fetch_data_from_api E self (''market/'' @ market_index @ ''/historical'')
       [(''index'', market_index), (''from'', from_date), (''to'', to_date)] w = (Inl e, w1) \<Longrightarrow>
     ingest_market_data E self market_index from_date to_date w = (Inl e, w1)"
  by (simp add: ingest_market_data_def)

lemma upload_to_s3_put_raises:
  "datetime_now E w = (t, w1) \<Longrightarrow>
   s3_put_object E (s3_bucket_name self)
       (raw_s3_key (s3_prefix self) data_type date_str
          (raw_file_name data_type date_str (strftime E t ''%H%M%S'')))
       (json_dumps E (Some 2) data) w1 = (Inl e, w2) \<Longrightarrow>
     upload_to_s3 E self data data_type date_str w = (Inl e, w2)"
  by (simp add: upload_to_s3_def Let_def)

lemma upload_to_s3_len_raises:
  "datetime_now E w = (t, w1) \<Longrightarrow>
   s3_put_object E (s3_bucket_name self)
       (raw_s3_key (s3_prefix self) data_type date_str
          (raw_file_name data_type date_str (strftime E t ''%H%M%S'')))
       (json_dumps E (Some 2) data) w1 = (Inr u, w2) \<Longrightarrow>
   py_len data = Inl e \<Longrightarrow>
     upload_to_s3 E self data data_type date_str w = (Inl e, w2)"
  by (simp add: upload_to_s3_def Let_def)

text \<open>
  Three symbols and two indices. The second symbol fails at the API and the third at the
  write; the second index is written and then fails at \<^verbatim>\<open>len(data)\<close>. The run returns
  the keys of the first symbol and of the first index, and three keys have been written.
\<close>

theorem run_daily_ingestion_partial_failure_witness:
  "run_daily_ingestion demo_env demo_ingestor [''AAPL'', ''MSFT'', ''GOOGL''] [''SPX'', ''NDX''] [] =
     (Inr [''financial_data/company_financials/2024-01-01/company_financials_2024-01-01_103000.json'',
           ''financial_data/market_data/2024-01-01/market_data_2024-01-01_103001.json''],
      [''financial_data/company_financials/2024-01-01/company_financials_2024-01-01_103000.json'',
       ''financial_data/market_data/2024-01-01/market_data_2024-01-01_103001.json'',
       ''financial_data/market_data/2024-01-01/market_data_2024-01-01_103002.json''])
   \<and> fst (daily_outcomes demo_env demo_ingestor [''AAPL'', ''MSFT'', ''GOOGL''] [''SPX'', ''NDX''] []) =
     [Inr ''financial_data/company_financials/2024-01-01/company_financials_2024-01-01_103000.json'',
      Inl (RequestException ''500''),
      Inl (ClientError ''AccessDenied''),
      Inr ''financial_data/market_data/2024-01-01/market_data_2024-01-01_103001.json'',
      Inl TypeError]"
proof -
  have "daily_outcomes demo_env demo_ingestor [''AAPL'', ''MSFT'', ''GOOGL''] [''SPX'', ''NDX''] [] =
     ([Inr ''financial_data/company_financials/2024-01-01/company_financials_2024-01-01_103000.json'',
       Inl (RequestException ''500''),
       Inl (ClientError ''AccessDenied''),
       Inr ''financial_data/market_data/2024-01-01/market_data_2024-01-01_103001.json'',
       Inl TypeError],
      [''financial_data/company_financials/2024-01-01/company_financials_2024-01-01_103000.json'',
       ''financial_data/market_data/2024-01-01/market_data_2024-01-01_103001.json'',
       ''financial_data/market_data/2024-01-01/market_data_2024-01-01_103002.json''])"
    by (simp add: daily_outcomes_def demo_env_def demo_ingestor_def ingest_company_financials_def
        ingest_market_data_def fetch_data_from_api_def upload_to_s3_def raw_s3_key_def
        raw_file_name_def Let_def)
  with run_daily_ingestion_partial_failure
    [of demo_env demo_ingestor "[''AAPL'', ''MSFT'', ''GOOGL'']" "[''SPX'', ''NDX'']" "[]"]
  show ?thesis by simp
qed

section \<open>The Reactor: the theorems\<close>

lemma handle_records_append:
  "handle_records E (xs @ ys) w =
     (case handle_records E xs w of
        (Inl e, w1) \<Rightarrow> (Inl e, w1)
      | (Inr u, w1) \<Rightarrow> handle_records E ys w1)"
  by (induction xs arbitrary: w) (auto split: prod.splits sum.splits)

lemma handle_records_raises:
  assumes "handle_records E xs w = (Inr (), w1)" "handle_record E record w1 = (Inl e, w2)"
  shows "handle_records E (xs @ record # ys) w = (Inl e, w2)"
  using assms by (simp add: handle_records_append)

lemma handle_records_all_succeed:
  assumes "handle_records E (xs @ record # ys) w = (Inr u, w')"
  shows "\<exists>w1 w2. handle_records E xs w = (Inr (), w1) \<and> handle_record E record w1 = (Inr (), w2)"
  using assms by (auto simp: handle_records_append split: prod.splits sum.splits)

lemma lambda_handler_records:
  assumes "py_getitem event ''Records'' = Inr (JArr records)"
  shows "lambda_handler E event w =
     (case handle_records E records w of
        (Inl e, w1) \<Rightarrow> (Inl e, w1)
      | (Inr u, w1) \<Rightarrow>
          (Inr (JObj [(''statusCode'', JInt 200),
                      (''body'', JStr (json_dumps E None (JStr ''Data processing complete.'')))]),
           w1))"
  using assms by (simp add: lambda_handler_def bind_exn_def)

text \<open>
  Where a notification can fail inside the \<^verbatim>\<open>try\<close>: in the load, at the split of a key
  that is not a string, in the normalization, in the upload. Each of them makes
  \<open>handle_record\<close> raise the same exception, in the world the failing step left.
\<close>

lemma handle_record_stage_raises:
  assumes "py_contains ''s3'' record = Inr True"
    and "record_bucket record = Inr bucket" and "record_key record = Inr key"
    and "load_raw_data_from_s3 E bucket key w1 = (Inl e, w2)
         \<or> (\<exists>raw_data. load_raw_data_from_s3 E bucket key w1 = (Inr raw_data, w2)
               \<and> (\<forall>k. key \<noteq> JStr k) \<and> e = AttributeError)
         \<or> (\<exists>raw_data k. load_raw_data_from_s3 E bucket key w1 = (Inr raw_data, w2)
               \<and> key = JStr k
               \<and> transform_financial_data (py_builtins E) raw_data (data_type_of_key k) = Inl e)
         \<or> (\<exists>raw_data k processed_data wl.
               load_raw_data_from_s3 E bucket key w1 = (Inr raw_data, wl) \<and> key = JStr k
               \<and> transform_financial_data (py_builtins E) raw_data (data_type_of_key k) =
                   Inr processed_data
               \<and> upload_processed_data_to_s3 E processed_data k wl = (Inl e, w2))"
  shows "handle_record E record w1 = (Inl e, w2)"
  using assms by (cases key) (auto simp: handle_record_def process_object_def)

lemma handle_record_early_raises:
  assumes "py_contains ''s3'' record = Inl e
         \<or> py_contains ''s3'' record = Inr True \<and> record_bucket record = Inl e
         \<or> py_contains ''s3'' record = Inr True \<and> (\<exists>bucket. record_bucket record = Inr bucket)
             \<and> record_key record = Inl e"
  shows "handle_record E record w1 = (Inl e, w1)"
  using assms by (auto simp: handle_record_def)

lemma handle_record_returns:
  assumes "handle_record E record w1 = (Inr u, w2)"
  shows "py_contains ''s3'' record = Inr False \<and> w2 = w1
       \<or> (\<exists>bucket k raw_data processed_data wl new_s3_key.
             py_contains ''s3'' record = Inr True
             \<and> record_bucket record = Inr bucket \<and> record_key record = Inr (JStr k)
             \<and> load_raw_data_from_s3 E bucket (JStr k) w1 = (Inr raw_data, wl)
             \<and> transform_financial_data (py_builtins E) raw_data (data_type_of_key k) =
                 Inr processed_data
             \<and> upload_processed_data_to_s3 E processed_data k wl = (Inr new_s3_key, w2))"
  using assms
  by (auto simp: handle_record_def process_object_def
      split: sum.splits bool.splits prod.splits json.splits)

lemma handle_record_notification:
  "handle_record E (s3_notification bucket key) w =
     (case process_object E (JStr bucket) (JStr key) w of
        (Inl e, w1) \<Rightarrow> (Inl e, w1)
      | (Inr processed_s3_key, w1) \<Rightarrow> (Inr (), w1))"
  by (simp add: handle_record_def record_bucket_def record_key_def s3_notification_def)

text \<open>
  Claim C8. Let the event's \<^verbatim>\<open>Records\<close> be a list and let the entries before some entry
  be handled without an exception. If for that entry the load raises, or its key is not
  a string and cannot be split, or the normalization raises, or the upload raises, the
  handler raises that exception, whatever follows the entry; so it does when the test
  for \<^verbatim>\<open>'s3'\<close> or the reading of bucket and key raises. If the handler returns, it
  returns the dictionary with the status code \<open>200\<close> and the fixed body, and every
  entry was either passed over for want of \<^verbatim>\<open>'s3'\<close> or loaded, normalized and uploaded
  without an exception. The handler never returns anything else.
\<close>

theorem lambda_handler_fail_fast:
  assumes "py_getitem event ''Records'' = Inr (JArr records)"
  shows "(\<forall>xs entry ys w1 bucket key e w2.
            records = xs @ entry # ys \<and> handle_records E xs w = (Inr (), w1)
            \<and> py_contains ''s3'' entry = Inr True
            \<and> record_bucket entry = Inr bucket \<and> record_key entry = Inr key
            \<and> (load_raw_data_from_s3 E bucket key w1 = (Inl e, w2)
               \<or> (\<exists>raw_data. load_raw_data_from_s3 E bucket key w1 = (Inr raw_data, w2)
                     \<and> (\<forall>k. key \<noteq> JStr k) \<and> e = AttributeError)
               \<or> (\<exists>raw_data k. load_raw_data_from_s3 E bucket key w1 = (Inr raw_data, w2)
                     \<and> key = JStr k
                     \<and> transform_financial_data (py_builtins E) raw_data (data_type_of_key k) = Inl e)
               \<or> (\<exists>raw_data k processed_data wl.
                     load_raw_data_from_s3 E bucket key w1 = (Inr raw_data, wl) \<and> key = JStr k
                     \<and> transform_financial_data (py_builtins E) raw_data (data_type_of_key k) =
                         Inr processed_data
                     \<and> upload_processed_data_to_s3 E processed_data k wl = (Inl e, w2)))
            \<longrightarrow> lambda_handler E event w = (Inl e, w2))
       \<and> (\<forall>xs entry ys w1 e.
            records = xs @ entry # ys \<and> handle_records E xs w = (Inr (), w1)
            \<and> (py_contains ''s3'' entry = Inl e
               \<or> py_contains ''s3'' entry = Inr True \<and> record_bucket entry = Inl e
               \<or> py_contains ''s3'' entry = Inr True
                   \<and> (\<exists>bucket. record_bucket entry = Inr bucket) \<and> record_key entry = Inl e)
            \<longrightarrow> lambda_handler E event w = (Inl e, w1))
       \<and> (\<forall>r w'. lambda_handler E event w = (Inr r, w') \<longrightarrow>
            r = JObj [(''statusCode'', JInt 200),
                      (''body'', JStr (json_dumps E None (JStr ''Data processing complete.'')))]
            \<and> (\<forall>xs entry ys. records = xs @ entry # ys \<longrightarrow>
                 (\<exists>w1 w2. handle_records E xs w = (Inr (), w1)
                    \<and> (py_contains ''s3'' entry = Inr False \<and> w2 = w1
                       \<or> (\<exists>bucket k raw_data processed_data wl new_s3_key.
                             py_contains ''s3'' entry = Inr True
                             \<and> record_bucket entry = Inr bucket
                             \<and> record_key entry = Inr (JStr k)
                             \<and> load_raw_data_from_s3 E bucket (JStr k) w1 = (Inr raw_data, wl)
                             \<and> transform_financial_data (py_builtins E) raw_data
                                  (data_type_of_key k) = Inr processed_data
                             \<and> upload_processed_data_to_s3 E processed_data k wl =
                                  (Inr new_s3_key, w2))))))
       \<and> ((\<exists>e. fst (lambda_handler E event w) = Inl e)
            \<or> fst (lambda_handler E event w) =
                 Inr (JObj [(''statusCode'', JInt 200),
                            (''body'', JStr (json_dumps E None (JStr ''Data processing complete.'')))]))"
proof (intro conjI allI impI)
  fix xs r ys w1 bucket key e w2
  assume a: "records = xs @ r # ys \<and> handle_records E xs w = (Inr (), w1)
            \<and> py_contains ''s3'' r = Inr True
            \<and> record_bucket r = Inr bucket \<and> record_key r = Inr key
            \<and> (load_raw_data_from_s3 E bucket key w1 = (Inl e, w2)
               \<or> (\<exists>raw_data. load_raw_data_from_s3 E bucket key w1 = (Inr raw_data, w2)
                     \<and> (\<forall>k. key \<noteq> JStr k) \<and> e = AttributeError)
               \<or> (\<exists>raw_data k. load_raw_data_from_s3 E bucket key w1 = (Inr raw_data, w2)
                     \<and> key = JStr k
                     \<and> transform_financial_data (py_builtins E) raw_data (data_type_of_key k) = Inl e)
               \<or> (\<exists>raw_data k processed_data wl.
                     load_raw_data_from_s3 E bucket key w1 = (Inr raw_data, wl) \<and> key = JStr k
                     \<and> transform_financial_data (py_builtins E) raw_data (data_type_of_key k) =
                         Inr processed_data
                     \<and> upload_processed_data_to_s3 E processed_data k wl = (Inl e, w2)))"
  then have "handle_record E r w1 = (Inl e, w2)"
    by (intro handle_record_stage_raises [of r bucket key]) blast+
  with a show "lambda_handler E event w = (Inl e, w2)"
    by (simp add: lambda_handler_records [OF assms] handle_records_raises)
next
  fix xs r ys w1 e
  assume a: "records = xs @ r # ys \<and> handle_records E xs w = (Inr (), w1)
            \<and> (py_contains ''s3'' r = Inl e
               \<or> py_contains ''s3'' r = Inr True \<and> record_bucket r = Inl e
               \<or> py_contains ''s3'' r = Inr True
                   \<and> (\<exists>bucket. record_bucket r = Inr bucket) \<and> record_key r = Inl e)"
  then have "handle_record E r w1 = (Inl e, w1)"
    by (intro handle_record_early_raises) blast
  with a show "lambda_handler E event w = (Inl e, w1)"
    by (simp add: lambda_handler_records [OF assms] handle_records_raises)
next
  fix r w'
  assume ok: "lambda_handler E event w = (Inr r, w')"
  then show "r = JObj [(''statusCode'', JInt 200),
                      (''body'', JStr (json_dumps E None (JStr ''Data processing complete.'')))]"
    by (auto simp: lambda_handler_records [OF assms] split: prod.splits sum.splits)
  fix xs r ys
  assume split: "records = xs @ r # ys"
  from ok obtain u where "handle_records E records w = (Inr u, w')"
    by (auto simp: lambda_handler_records [OF assms] split: prod.splits sum.splits)
  then have "handle_records E (xs @ r # ys) w = (Inr u, w')"
    by (simp add: split)
  from handle_records_all_succeed [OF this]
  obtain w1 w2 where 1: "handle_records E xs w = (Inr (), w1)"
    and 2: "handle_record E r w1 = (Inr (), w2)"
    by blast
  from handle_record_returns [OF 2] 1
  show "\<exists>w1 w2. handle_records E xs w = (Inr (), w1)
                    \<and> (py_contains ''s3'' r = Inr False \<and> w2 = w1
                       \<or> (\<exists>bucket k raw_data processed_data wl new_s3_key.
                             py_contains ''s3'' r = Inr True
                             \<and> record_bucket r = Inr bucket
                             \<and> record_key r = Inr (JStr k)
                             \<and> load_raw_data_from_s3 E bucket (JStr k) w1 = (Inr raw_data, wl)
                             \<and> transform_financial_data (py_builtins E) raw_data
                                  (data_type_of_key k) = Inr processed_data
                             \<and> upload_processed_data_to_s3 E processed_data k wl =
                                  (Inr new_s3_key, w2)))"
    by blast
next
  show "(\<exists>e. fst (lambda_handler E event w) = Inl e)
            \<or> fst (lambda_handler E event w) =
                 Inr (JObj [(''statusCode'', JInt 200),
                            (''body'', JStr (json_dumps E None (JStr ''Data processing complete.'')))])"
    by (auto simp: lambda_handler_records [OF assms] split: prod.splits sum.splits)
qed

lemma s3_notification_reads [simp]:
  "py_contains ''s3'' (s3_notification bucket key) = Inr True"
  "record_bucket (s3_notification bucket key) = Inr (JStr bucket)"
  "record_key (s3_notification bucket key) = Inr (JStr key)"
  by (simp_all add: s3_notification_def record_bucket_def record_key_def)

lemma s3_event_records [simp]: "py_getitem (s3_event records) ''Records'' = Inr (JArr records)"
  by (simp add: s3_event_def)

lemma demo_loads:
  "load_raw_data_from_s3 demo_env (JStr ''raw'') (JStr demo_key_present) w = (Inr (JArr []), w)"
  "load_raw_data_from_s3 demo_env (JStr ''raw'') (JStr demo_key_absent) w =
     (Inl (ClientError ''NoSuchKey''), w)"
  "load_raw_data_from_s3 demo_env (JStr ''raw'') (JStr demo_key_scalar) w = (Inr (JInt 5), w)"
  "load_raw_data_from_s3 demo_env (JStr ''raw'') (JStr demo_key_denied) w = (Inr (JArr []), w)"
  by (simp_all add: load_raw_data_from_s3_def demo_env_def demo_key_present_def
      demo_key_absent_def demo_key_scalar_def demo_key_denied_def)

lemma demo_data_types:
  "data_type_of_key demo_key_present = ''market_data''"
  "data_type_of_key demo_key_scalar = ''market_data''"
  "data_type_of_key demo_key_denied = ''market_data''"
  by (simp_all add: data_type_of_key_def demo_key_present_def demo_key_scalar_def
      demo_key_denied_def)

lemma demo_transforms:
  "transform_financial_data (py_builtins demo_env) (JArr []) ''market_data'' = Inr (JArr [])"
  "transform_financial_data (py_builtins demo_env) (JInt 5) ''market_data'' = Inl TypeError"
  by (simp_all add: transform_financial_data_def)

lemma demo_uploads:
  "upload_processed_data_to_s3 demo_env (JArr []) demo_key_present w =
     (Inr ''processed_data/market_data/2024-01-01/a.json'',
      w @ [''processed_data/market_data/2024-01-01/a.json''])"
  "upload_processed_data_to_s3 demo_env (JArr []) demo_key_denied w =
     (Inl (ClientError ''AccessDenied''), w)"
  by (simp_all add: upload_processed_data_to_s3_def derive_processed_key_def demo_env_def
      demo_key_present_def demo_key_denied_def Let_def)

lemma demo_present_ok:
  "handle_record demo_env (s3_notification ''raw'' demo_key_present) w =
     (Inr (), w @ [''processed_data/market_data/2024-01-01/a.json''])"
  by (simp add: handle_record_notification process_object_def demo_loads demo_data_types
      demo_transforms demo_uploads)

text \<open>
  Five batches. Of three notifications the second is for an object the store does not
  have: the first is processed and written, the handler raises the store's error, the
  third is never reached. A raw object that is a number fails in the normalization; a
  refused write of the processed object fails in the upload; a key that is a number
  cannot be split; a notification without a bucket fails before the load. On the first
  notification alone the handler returns the success response, after a load, a
  normalization and an upload.
\<close>

theorem lambda_handler_fail_fast_witness:
  \<open>handle_records demo_env [s3_notification ''raw'' demo_key_present] [] =
       (Inr (), [''processed_data/market_data/2024-01-01/a.json''])
   \<and> load_raw_data_from_s3 demo_env (JStr ''raw'') (JStr demo_key_absent)
         [''processed_data/market_data/2024-01-01/a.json''] =
       (Inl (ClientError ''NoSuchKey''), [''processed_data/market_data/2024-01-01/a.json''])
   \<and> lambda_handler demo_env
         (s3_event [s3_notification ''raw'' demo_key_present,
                    s3_notification ''raw'' demo_key_absent,
                    s3_notification ''raw'' demo_key_present]) [] =
       (Inl (ClientError ''NoSuchKey''), [''processed_data/market_data/2024-01-01/a.json''])
   \<and> load_raw_data_from_s3 demo_env (JStr ''raw'') (JStr demo_key_scalar) [] = (Inr (JInt 5), [])
   \<and> transform_financial_data (py_builtins demo_env) (JInt 5) (data_type_of_key demo_key_scalar) =
       Inl TypeError
   \<and> lambda_handler demo_env (s3_event [s3_notification ''raw'' demo_key_scalar]) [] =
       (Inl TypeError, [])
   \<and> load_raw_data_from_s3 demo_env (JStr ''raw'') (JStr demo_key_denied) [] = (Inr (JArr []), [])
   \<and> transform_financial_data (py_builtins demo_env) (JArr []) (data_type_of_key demo_key_denied) =
       Inr (JArr [])
   \<and> upload_processed_data_to_s3 demo_env (JArr []) demo_key_denied [] =
       (Inl (ClientError ''AccessDenied''), [])
   \<and> lambda_handler demo_env (s3_event [s3_notification ''raw'' demo_key_denied]) [] =
       (Inl (ClientError ''AccessDenied''), [])
   \<and> record_key demo_record_numeric_key = Inr (JInt 7)
   \<and> load_raw_data_from_s3 (demo_env\<lparr>s3_get_object := \<lambda>bucket key w. (Inr ''[]'', w)\<rparr>)
         (JStr ''raw'') (JInt 7) [] = (Inr (JArr []), [])
   \<and> lambda_handler (demo_env\<lparr>s3_get_object := \<lambda>bucket key w. (Inr ''[]'', w)\<rparr>)
         (s3_event [demo_record_numeric_key]) [] = (Inl AttributeError, [])
   \<and> record_bucket demo_record_without_bucket = Inl (KeyError ''bucket'')
   \<and> lambda_handler demo_env (s3_event [demo_record_without_bucket]) [] =
       (Inl (KeyError ''bucket''), [])
   \<and> lambda_handler demo_env (s3_event [s3_notification ''raw'' demo_key_present]) [] =
       (Inr (JObj [(''statusCode'', JInt 200), (''body'', JStr ''"Data processing complete."'')]),
        [''processed_data/market_data/2024-01-01/a.json''])
   \<and> (\<exists>w1 w2 bucket k raw_data processed_data wl new_s3_key.
         handle_records demo_env [] [] = (Inr (), w1)
         \<and> py_contains ''s3'' (s3_notification ''raw'' demo_key_present) = Inr True
         \<and> record_bucket (s3_notification ''raw'' demo_key_present) = Inr bucket
         \<and> record_key (s3_notification ''raw'' demo_key_present) = Inr (JStr k)
         \<and> load_raw_data_from_s3 demo_env bucket (JStr k) w1 = (Inr raw_data, wl)
         \<and> transform_financial_data (py_builtins demo_env) raw_data (data_type_of_key k) =
             Inr processed_data
         \<and> upload_processed_data_to_s3 demo_env processed_data k wl = (Inr new_s3_key, w2))\<close>
proof -
  let ?a = "s3_notification ''raw'' demo_key_present"
  let ?b = "s3_notification ''raw'' demo_key_absent"
  let ?c = "s3_notification ''raw'' demo_key_scalar"
  let ?d = "s3_notification ''raw'' demo_key_denied"
  let ?k = "''processed_data/market_data/2024-01-01/a.json''"
  let ?E = "demo_env\<lparr>s3_get_object := \<lambda>bucket key w. (Inr ''[]'', w)\<rparr>"
  note T = lambda_handler_fail_fast [OF s3_event_records]
  note T1 = T [THEN conjunct1, rule_format]
  note T2 = T [THEN conjunct2, THEN conjunct1, rule_format]
  note T3 = T [THEN conjunct2, THEN conjunct2, THEN conjunct1, rule_format]
  \<comment> \<open>the load raises\<close>
  have a1: "handle_records demo_env [?a] [] = (Inr (), [?k])"
    by (simp add: demo_present_ok)
  have a2: "load_raw_data_from_s3 demo_env (JStr ''raw'') (JStr demo_key_absent) [?k] =
      (Inl (ClientError ''NoSuchKey''), [?k])"
    by (rule demo_loads)
  have a3: "[?a, ?b, ?a] = [?a] @ ?b # [?a]" by simp
  have A: "lambda_handler demo_env (s3_event [?a, ?b, ?a]) [] = (Inl (ClientError ''NoSuchKey''), [?k])"
    by (rule T1 [where xs = "[?a]" and entry = "?b" and ys = "[?a]" and ?w1.0 = "[?k]"
          and bucket = "JStr ''raw''" and key = "JStr demo_key_absent"])
      (simp add: demo_present_ok a2)
  \<comment> \<open>the normalization raises\<close>
  have b0: "handle_records demo_env [] [] = (Inr (), [])" by simp
  have b1: "load_raw_data_from_s3 demo_env (JStr ''raw'') (JStr demo_key_scalar) [] = (Inr (JInt 5), [])"
    by (rule demo_loads)
  have b2: "transform_financial_data (py_builtins demo_env) (JInt 5) (data_type_of_key demo_key_scalar) =
      Inl TypeError"
    by (simp add: demo_data_types demo_transforms)
  have b3: "[?c] = [] @ ?c # []" by simp
  have B: "lambda_handler demo_env (s3_event [?c]) [] = (Inl TypeError, [])"
    by (rule T1 [where xs = "[]" and entry = "?c" and ys = "[]" and ?w1.0 = "[]"
          and bucket = "JStr ''raw''" and key = "JStr demo_key_scalar"])
      (simp add: b1 b2)
  \<comment> \<open>the upload raises\<close>
  have c1: "load_raw_data_from_s3 demo_env (JStr ''raw'') (JStr demo_key_denied) [] = (Inr (JArr []), [])"
    by (rule demo_loads)
  have c2: "transform_financial_data (py_builtins demo_env) (JArr []) (data_type_of_key demo_key_denied) =
      Inr (JArr [])"
    by (simp add: demo_data_types demo_transforms)
  have c3: "upload_processed_data_to_s3 demo_env (JArr []) demo_key_denied [] =
      (Inl (ClientError ''AccessDenied''), [])"
    by (rule demo_uploads)
  have c4: "[?d] = [] @ ?d # []" by simp
  have C: "lambda_handler demo_env (s3_event [?d]) [] = (Inl (ClientError ''AccessDenied''), [])"
    by (rule T1 [where xs = "[]" and entry = "?d" and ys = "[]" and ?w1.0 = "[]"
          and bucket = "JStr ''raw''" and key = "JStr demo_key_denied"])
      (simp add: c1 c2 c3)
  \<comment> \<open>the key cannot be split\<close>
  have d0: "handle_records ?E [] [] = (Inr (), [])" by simp
  have d1: "py_contains ''s3'' demo_record_numeric_key = Inr True"
    by (simp add: demo_record_numeric_key_def)
  have d2: "record_bucket demo_record_numeric_key = Inr (JStr ''raw'')"
    by (simp add: demo_record_numeric_key_def record_bucket_def)
  have d3: "record_key demo_record_numeric_key = Inr (JInt 7)"
    by (simp add: demo_record_numeric_key_def record_key_def)
  have d4: "load_raw_data_from_s3 ?E (JStr ''raw'') (JInt 7) [] = (Inr (JArr []), [])"
    by (simp add: load_raw_data_from_s3_def demo_env_def)
  have d5: "\<forall>k. JInt 7 \<noteq> JStr k" by simp
  have d6: "[demo_record_numeric_key] = [] @ demo_record_numeric_key # []" by simp
  have D: "lambda_handler ?E (s3_event [demo_record_numeric_key]) [] = (Inl AttributeError, [])"
    by (rule T1 [where xs = "[]" and entry = demo_record_numeric_key and ys = "[]"
          and ?w1.0 = "[]" and bucket = "JStr ''raw''" and key = "JInt 7"])
      (simp add: d1 d2 d3 d4)
  \<comment> \<open>the bucket cannot be read\<close>
  have e1: "py_contains ''s3'' demo_record_without_bucket = Inr True"
    by (simp add: demo_record_without_bucket_def)
  have e2: "record_bucket demo_record_without_bucket = Inl (KeyError ''bucket'')"
    by (simp add: demo_record_without_bucket_def record_bucket_def)
  have e3: "[demo_record_without_bucket] = [] @ demo_record_without_bucket # []" by simp
  have F: "lambda_handler demo_env (s3_event [demo_record_without_bucket]) [] =
      (Inl (KeyError ''bucket''), [])"
    by (rule T2 [where xs = "[]" and entry = demo_record_without_bucket and ys = "[]"])
      (simp add: e1 e2)
  \<comment> \<open>the handler returns\<close>
  have g1: \<open>lambda_handler demo_env (s3_event [?a]) [] =
      (Inr (JObj [(''statusCode'', JInt 200), (''body'', JStr ''"Data processing complete."'')]), [?k])\<close>
    by (simp add: lambda_handler_records [OF s3_event_records] demo_present_ok)
      (simp add: demo_env_def)
  have g2: "[?a] = [] @ ?a # []" by simp
  from T3 [OF g1, THEN conjunct2, rule_format, OF g2]
  have "\<exists>w1 w2. handle_records demo_env [] [] = (Inr (), w1)
          \<and> (py_contains ''s3'' ?a = Inr False \<and> w2 = w1
             \<or> (\<exists>bucket k raw_data processed_data wl new_s3_key.
                   py_contains ''s3'' ?a = Inr True
                   \<and> record_bucket ?a = Inr bucket \<and> record_key ?a = Inr (JStr k)
                   \<and> load_raw_data_from_s3 demo_env bucket (JStr k) w1 = (Inr raw_data, wl)
                   \<and> transform_financial_data (py_builtins demo_env) raw_data (data_type_of_key k) =
                       Inr processed_data
                   \<and> upload_processed_data_to_s3 demo_env processed_data k wl = (Inr new_s3_key, w2)))" .
  then have G: "\<exists>w1 w2 bucket k raw_data processed_data wl new_s3_key.
         handle_records demo_env [] [] = (Inr (), w1)
         \<and> py_contains ''s3'' ?a = Inr True
         \<and> record_bucket ?a = Inr bucket \<and> record_key ?a = Inr (JStr k)
         \<and> load_raw_data_from_s3 demo_env bucket (JStr k) w1 = (Inr raw_data, wl)
         \<and> transform_financial_data (py_builtins demo_env) raw_data (data_type_of_key k) =
             Inr processed_data
         \<and> upload_processed_data_to_s3 demo_env processed_data k wl = (Inr new_s3_key, w2)"
    by (simp del: s3_notification_reads add: s3_notification_reads(1))
  from a1 a2 A b1 b2 B c1 c2 c3 C d3 d4 D e2 F g1 G show ?thesis
    by (intro conjI)
qed

lemma handle_record_skip:
  "py_contains ''s3'' record = Inr False \<Longrightarrow> handle_record E record w = (Inr (), w)"
  by (simp add: handle_record_def)

lemma handle_records_filter:
  "handle_records E (filter (\<lambda>r. py_contains ''s3'' r \<noteq> Inr False) records) w =
     handle_records E records w"
  by (induction records arbitrary: w) (auto simp: handle_record_skip split: prod.splits sum.splits)

text \<open>
  Claim C10. An entry of \<^verbatim>\<open>Records\<close> in which \<^verbatim>\<open>'s3'\<close> is not found, as in every
  dictionary without that key, is passed over: handling it returns at once, in the same
  world. The handler therefore does on an event what it does on the event without such
  entries, and when the entries that remain are handled without an exception it returns
  the dictionary with the status code \<open>200\<close> and the body
  \<^verbatim>\<open>json.dumps('Data processing complete.')\<close>.
\<close>

theorem lambda_handler_skips_without_s3:
  assumes "py_getitem event ''Records'' = Inr (JArr records)"
    and "py_getitem event' ''Records'' =
           Inr (JArr (filter (\<lambda>r. py_contains ''s3'' r \<noteq> Inr False) records))"
  shows "lambda_handler E event w = lambda_handler E event' w
     \<and> (\<forall>record w1. py_contains ''s3'' record = Inr False \<longrightarrow>
           handle_record E record w1 = (Inr (), w1))
     \<and> (\<forall>fields. map_of fields ''s3'' = None \<longrightarrow> py_contains ''s3'' (JObj fields) = Inr False)
     \<and> (\<forall>w'. handle_records E (filter (\<lambda>r. py_contains ''s3'' r \<noteq> Inr False) records) w = (Inr (), w')
           \<longrightarrow> lambda_handler E event w =
                 (Inr (JObj [(''statusCode'', JInt 200),
                             (''body'', JStr (json_dumps E None (JStr ''Data processing complete.'')))]),
                  w'))"
  by (simp add: lambda_handler_records [OF assms(1)] lambda_handler_records [OF assms(2)]
      handle_records_filter handle_record_skip)

text \<open>
  An entry without \<^verbatim>\<open>'s3'\<close> followed by a notification that is processed: the first
  changes nothing and the handler returns the success response.
\<close>

theorem lambda_handler_skips_without_s3_witness:
  \<open>py_getitem (s3_event [demo_record_without_s3, s3_notification ''raw'' demo_key_present]) ''Records'' =
     Inr (JArr [demo_record_without_s3, s3_notification ''raw'' demo_key_present])
   \<and> py_getitem (s3_event [s3_notification ''raw'' demo_key_present]) ''Records'' =
     Inr (JArr (filter (\<lambda>r. py_contains ''s3'' r \<noteq> Inr False)
                  [demo_record_without_s3, s3_notification ''raw'' demo_key_present]))
   \<and> py_contains ''s3'' demo_record_without_s3 = Inr False
   \<and> handle_record demo_env demo_record_without_s3 [] = (Inr (), [])
   \<and> handle_records demo_env (filter (\<lambda>r. py_contains ''s3'' r \<noteq> Inr False)
          [demo_record_without_s3, s3_notification ''raw'' demo_key_present]) [] =
       (Inr (), [''processed_data/market_data/2024-01-01/a.json''])
   \<and> lambda_handler demo_env
         (s3_event [demo_record_without_s3, s3_notification ''raw'' demo_key_present]) [] =
       (Inr (JObj [(''statusCode'', JInt 200), (''body'', JStr ''"Data processing complete."'')]),
        [''processed_data/market_data/2024-01-01/a.json''])\<close>
proof -
  let ?a = "s3_notification ''raw'' demo_key_present"
  let ?n = "demo_record_without_s3"
  let ?k = "''processed_data/market_data/2024-01-01/a.json''"
  have n: "py_contains ''s3'' ?n = Inr False"
    by (simp add: demo_record_without_s3_def)
  have f: "filter (\<lambda>r. py_contains ''s3'' r \<noteq> Inr False) [?n, ?a] = [?a]"
    by (simp add: n)
  have h1: "py_getitem (s3_event [?n, ?a]) ''Records'' = Inr (JArr [?n, ?a])"
    by simp
  have h2: "py_getitem (s3_event [?a]) ''Records'' =
      Inr (JArr (filter (\<lambda>r. py_contains ''s3'' r \<noteq> Inr False) [?n, ?a]))"
    unfolding f by simp
  have h3: "handle_records demo_env (filter (\<lambda>r. py_contains ''s3'' r \<noteq> Inr False) [?n, ?a]) [] =
      (Inr (), [?k])"
    unfolding f by (simp add: demo_present_ok)
  have body: \<open>json_dumps demo_env None (JStr ''Data processing complete.'') =
      ''"Data processing complete."''\<close>
    by (simp add: demo_env_def)
  note t = lambda_handler_skips_without_s3 [OF h1 h2, of demo_env "[]"]
  from t h3
  have "lambda_handler demo_env (s3_event [?n, ?a]) [] =
      (Inr (JObj [(''statusCode'', JInt 200),
                  (''body'', JStr (json_dumps demo_env None (JStr ''Data processing complete.'')))]),
       [?k])"
    by blast
  then have run: \<open>lambda_handler demo_env (s3_event [?n, ?a]) [] =
      (Inr (JObj [(''statusCode'', JInt 200), (''body'', JStr ''"Data processing complete."'')]), [?k])\<close>
    by (simp only: body)
  from t n have skip: "handle_record demo_env ?n [] = (Inr (), [])"
    by blast
  from h1 h2 n skip h3 run show ?thesis
    by (intro conjI)
qed


section \<open>The Credential Provider: the theorems\<close>

text \<open>
  Claim C9, as the code has it. A payload that is not valid JSON raises
  \<^verbatim>\<open>ValueError\<close> with the message that the secret string is not valid JSON. A payload
  that is a JSON object raises \<^verbatim>\<open>ValueError\<close> with the message that the key was not
  found when the field is absent or falsy, and returns the field's value otherwise. The
  two failures are of the same Python class and differ in their messages. A payload
  that is valid JSON but not an object raises \<^verbatim>\<open>AttributeError\<close>; any other exception
  of the parser is passed on. \<open>get_api_key_from_secret\<close> does this on the payload the
  secret store returns.
\<close>

theorem api_key_of_payload_cases:
  "(json_loads E secret_string = Inl JSONDecodeError \<longrightarrow>
      api_key_of_payload E secret_arn key_name secret_string =
        Inl (ValueError (not_valid_json_message secret_arn)))
   \<and> (\<forall>d. json_loads E secret_string = Inr (JObj d) \<and> truthy (dict_get d key_name JNull) \<longrightarrow>
         api_key_of_payload E secret_arn key_name secret_string = Inr (dict_get d key_name JNull))
   \<and> (\<forall>d. json_loads E secret_string = Inr (JObj d) \<and> \<not> truthy (dict_get d key_name JNull) \<longrightarrow>
         api_key_of_payload E secret_arn key_name secret_string =
           Inl (ValueError (key_not_found_message key_name secret_arn)))
   \<and> (\<forall>v. json_loads E secret_string = Inr v \<and> (\<forall>d. v \<noteq> JObj d) \<longrightarrow>
         api_key_of_payload E secret_arn key_name secret_string = Inl AttributeError)
   \<and> (\<forall>e. json_loads E secret_string = Inl e \<and> e \<noteq> JSONDecodeError \<longrightarrow>
         api_key_of_payload E secret_arn key_name secret_string = Inl e)
   \<and> key_not_found_message key_name secret_arn \<noteq> not_valid_json_message secret_arn
   \<and> (\<forall>w w1. get_secret E secret_arn w = (Inr secret_string, w1) \<longrightarrow>
         get_api_key_from_secret E secret_arn key_name w =
           (api_key_of_payload E secret_arn key_name secret_string, w1))"
proof -
  have 4: "api_key_of_payload E secret_arn key_name secret_string = Inl AttributeError"
    if "json_loads E secret_string = Inr v" "\<forall>d. v \<noteq> JObj d" for v
    using that by (cases v) (simp_all add: api_key_of_payload_def)
  have 5: "api_key_of_payload E secret_arn key_name secret_string = Inl e"
    if "json_loads E secret_string = Inl e" "e \<noteq> JSONDecodeError" for e
    using that by (cases e) (simp_all add: api_key_of_payload_def)
  have 6: "key_not_found_message key_name secret_arn \<noteq> not_valid_json_message secret_arn"
    by (simp add: key_not_found_message_def not_valid_json_message_def)
  show ?thesis
    using 4 5 6 by (simp add: api_key_of_payload_def get_api_key_from_secret_def)
qed

text \<open>
  The three examples of the specification, with the default field name \<^verbatim>\<open>api_key\<close>,
  the payload \<^verbatim>\<open>[]\<close>, the whole call on a store that holds \<^verbatim>\<open>{}\<close>, and a parser
  that gives up with another exception.
\<close>

theorem api_key_of_payload_cases_witness:
  \<open>json_loads demo_env ''{"api_key":"X"}'' = Inr (JObj [(''api_key'', JStr ''X'')])
   \<and> truthy (dict_get [(''api_key'', JStr ''X'')] ''api_key'' JNull)
   \<and> api_key_of_payload demo_env ''arn:demo'' ''api_key'' ''{"api_key":"X"}'' = Inr (JStr ''X'')
   \<and> json_loads demo_env ''not-json'' = Inl JSONDecodeError
   \<and> api_key_of_payload demo_env ''arn:demo'' ''api_key'' ''not-json'' =
       Inl (ValueError ''Secret string is not valid JSON for arn:demo'')
   \<and> json_loads demo_env ''{}'' = Inr (JObj [])
   \<and> \<not> truthy (dict_get [] ''api_key'' JNull)
   \<and> api_key_of_payload demo_env ''arn:demo'' ''api_key'' ''{}'' =
       Inl (ValueError (key_not_found_message ''api_key'' ''arn:demo''))
   \<and> json_loads demo_env ''[]'' = Inr (JArr [])
   \<and> api_key_of_payload demo_env ''arn:demo'' ''api_key'' ''[]'' = Inl AttributeError
   \<and> get_secret demo_env ''arn:demo'' [] = (Inr ''{}'', [])
   \<and> get_api_key_from_secret demo_env ''arn:demo'' ''api_key'' [] =
       (Inl (ValueError (key_not_found_message ''api_key'' ''arn:demo'')), [])
   \<and> json_loads (demo_env\<lparr>json_loads := \<lambda>s. Inl (OtherException ''RecursionError'')\<rparr>) ''[[''
       = Inl (OtherException ''RecursionError'')
   \<and> OtherException ''RecursionError'' \<noteq> JSONDecodeError
   \<and> api_key_of_payload (demo_env\<lparr>json_loads := \<lambda>s. Inl (OtherException ''RecursionError'')\<rparr>)
        ''arn:demo'' ''api_key'' ''[['' = Inl (OtherException ''RecursionError'')\<close>
proof -
  have a: \<open>json_loads demo_env ''{"api_key":"X"}'' = Inr (JObj [(''api_key'', JStr ''X'')])\<close>
    by (simp add: demo_env_def)
  have a': "truthy (dict_get [(''api_key'', JStr ''X'')] ''api_key'' JNull)"
    by (simp add: dict_get_def)
  have b: "json_loads demo_env ''not-json'' = Inl JSONDecodeError"
    by (simp add: demo_env_def)
  have c: "json_loads demo_env ''{}'' = Inr (JObj [])"
    by (simp add: demo_env_def)
  have c': "\<not> truthy (dict_get [] ''api_key'' JNull)"
    by (simp add: dict_get_def)
  from api_key_of_payload_cases [of demo_env \<open>''{"api_key":"X"}''\<close> "''arn:demo''" "''api_key''"] a a'
  have \<open>api_key_of_payload demo_env ''arn:demo'' ''api_key'' ''{"api_key":"X"}'' =
      Inr (dict_get [(''api_key'', JStr ''X'')] ''api_key'' JNull)\<close>
    by blast
  then have 1: \<open>api_key_of_payload demo_env ''arn:demo'' ''api_key'' ''{"api_key":"X"}'' = Inr (JStr ''X'')\<close>
    by (simp add: dict_get_def)
  from api_key_of_payload_cases [of demo_env "''not-json''" "''arn:demo''" "''api_key''"] b
  have 2: "api_key_of_payload demo_env ''arn:demo'' ''api_key'' ''not-json'' =
       Inl (ValueError ''Secret string is not valid JSON for arn:demo'')"
    by (simp add: not_valid_json_message_def)
  from api_key_of_payload_cases [of demo_env "''{}''" "''arn:demo''" "''api_key''"] c c'
  have 3: "api_key_of_payload demo_env ''arn:demo'' ''api_key'' ''{}'' =
       Inl (ValueError (key_not_found_message ''api_key'' ''arn:demo''))"
    by blast
  have d: "json_loads demo_env ''[]'' = Inr (JArr [])"
    by (simp add: demo_env_def)
  from api_key_of_payload_cases [of demo_env "''[]''" "''arn:demo''" "''api_key''"] d
  have 4: "api_key_of_payload demo_env ''arn:demo'' ''api_key'' ''[]'' = Inl AttributeError"
    by blast
  have s: "get_secret demo_env ''arn:demo'' [] = (Inr ''{}'', [])"
    by (simp add: get_secret_def demo_env_def)
  from api_key_of_payload_cases [of demo_env "''{}''" "''arn:demo''" "''api_key''"] s
  have "get_api_key_from_secret demo_env ''arn:demo'' ''api_key'' [] =
      (api_key_of_payload demo_env ''arn:demo'' ''api_key'' ''{}'', [])"
    by blast
  then have 5: "get_api_key_from_secret demo_env ''arn:demo'' ''api_key'' [] =
      (Inl (ValueError (key_not_found_message ''api_key'' ''arn:demo'')), [])"
    by (simp only: 3)
  let ?E = "demo_env\<lparr>json_loads := \<lambda>s. Inl (OtherException ''RecursionError'')\<rparr>"
  have e: "json_loads ?E ''[['' = Inl (OtherException ''RecursionError'')"
    by simp
  have e': "OtherException ''RecursionError'' \<noteq> JSONDecodeError"
    by simp
  from api_key_of_payload_cases [of ?E "''[[''" "''arn:demo''" "''api_key''"] e e'
  have 6: "api_key_of_payload ?E ''arn:demo'' ''api_key'' ''[['' =
      Inl (OtherException ''RecursionError'')"
    by blast
  from a a' b c c' 1 2 3 d 4 s 5 e e' 6 show ?thesis by blast
qed

text \<open>
  The claim as stated fails on the payload \<^verbatim>\<open>[]\<close>: it is valid JSON without the
  field, and what is raised is \<^verbatim>\<open>AttributeError\<close>, not the error for a missing field.
\<close>

theorem api_key_of_payload_not_object_counterexample:
  "json_loads demo_env ''[]'' = Inr (JArr [])
   \<and> api_key_of_payload demo_env ''arn:demo'' ''api_key'' ''[]'' = Inl AttributeError
   \<and> api_key_of_payload demo_env ''arn:demo'' ''api_key'' ''[]'' \<noteq>
       Inl (ValueError (key_not_found_message ''api_key'' ''arn:demo''))"
  by (simp add: api_key_of_payload_def demo_env_def)


end
